theory Spec2Isabelle
  imports Complex_Main
begin

section \<open>Python values and exceptions\<close>

text \<open>
  The exceptions the module \<^verbatim>\<open>nifits/io/oifits.py\<close> can raise on the paths modelled here.
  A failed \<^verbatim>\<open>assert\<close> raises \<open>AssertionError\<close>: this is the structural error of the
  format description. \<open>OSError\<close> stands for the input/output errors of writing a file
  (\<^verbatim>\<open>FileNotFoundError\<close> and the refusal to overwrite are subclasses of it).
\<close>

datatype error =
    AssertionError
  | AttributeError
  | NameError
  | TypeError
  | IndexError
  | KeyError
  | ValueError
  | OSError

text \<open>
  Plain Python values as they occur in station fields, header cards and table cells.
  Numbers (Python \<^verbatim>\<open>int\<close> and \<^verbatim>\<open>float\<close>, which Python compares by value) are exact
  reals: rounding and the IEEE special values are outside this model.
\<close>

datatype pyval =
    PyNone
  | PyStr string
  | PyNum real
  | PyList "pyval list"

text \<open>\<^verbatim>\<open>len(x)\<close>: defined on strings and lists, a \<open>TypeError\<close> otherwise.\<close>

fun py_len :: "pyval \<Rightarrow> error + nat" where
  "py_len (PyStr s) = Inr (length s)"
| "py_len (PyList xs) = Inr (length xs)"
| "py_len _ = Inl TypeError"

text \<open>
  \<^verbatim>\<open>array_eq(a, b)\<close>: unequal lengths give \<open>False\<close>; otherwise \<^verbatim>\<open>not (a != b).any()\<close>, and
  when that raises (for lists and strings \<^verbatim>\<open>a != b\<close> is a plain \<^verbatim>\<open>bool\<close>, which has no
  \<^verbatim>\<open>any\<close>) the bare \<^verbatim>\<open>except\<close> returns \<^verbatim>\<open>not (a != b)\<close>.
\<close>

definition array_eq :: "pyval \<Rightarrow> pyval \<Rightarrow> error + bool" where
  "array_eq a b =
     (case py_len a of
        Inl e \<Rightarrow> Inl e
      | Inr la \<Rightarrow>
          (case py_len b of
             Inl e \<Rightarrow> Inl e
           | Inr lb \<Rightarrow> if la \<noteq> lb then Inr False else Inr (\<not> (a \<noteq> b))))"

text \<open>
  The module defines \<^verbatim>\<open>array_eq\<close> only. The name \<^verbatim>\<open>_array_eq\<close> that
  \<^verbatim>\<open>OI_STATION.__eq__\<close> calls is bound nowhere in the module, so evaluating the call
  raises \<open>NameError\<close> before any argument is compared.
\<close>

definition call__array_eq :: "pyval \<Rightarrow> pyval \<Rightarrow> error + bool" where
  "call__array_eq a b = Inl NameError"

text \<open>Python's short-circuit \<^verbatim>\<open>or\<close> and \<^verbatim>\<open>not\<close> over expressions that may raise.\<close>

definition py_or :: "error + bool \<Rightarrow> error + bool \<Rightarrow> error + bool" where
  "py_or a b = (case a of Inl e \<Rightarrow> Inl e | Inr v \<Rightarrow> if v then Inr True else b)"

definition py_not :: "error + bool \<Rightarrow> error + bool" where
  "py_not a = (case a of Inl e \<Rightarrow> Inl e | Inr v \<Rightarrow> Inr (\<not> v))"

section \<open>Station descriptor\<close>

record OI_STATION =
  revision :: int
  tel_name :: pyval
  sta_name :: pyval
  diameter :: pyval
  staxyz :: pyval
  fov :: pyval
  fovtype :: pyval

datatype warning = UserWarning_revision_not_implemented int

text \<open>
  \<^verbatim>\<open>OI_STATION.__init__\<close>, returning the object and the warnings it emitted. The arguments
  are in the order of the signature; \<open>OI_STATION_default\<close> is the call with no argument.
\<close>

definition OI_STATION_init ::
  "pyval \<Rightarrow> pyval \<Rightarrow> pyval \<Rightarrow> pyval \<Rightarrow> pyval \<Rightarrow> pyval \<Rightarrow> int \<Rightarrow> OI_STATION \<times> warning list" where
  "OI_STATION_init tel sta diam xyz fov_arg fovtype_arg rvn =
     (\<lparr> revision = rvn, tel_name = tel, sta_name = sta, diameter = diam, staxyz = xyz,
         fov = (if rvn \<ge> 2 then fov_arg else PyNone),
         fovtype = (if rvn \<ge> 2 then fovtype_arg else PyNone) \<rparr>,
      if rvn > 2 then [UserWarning_revision_not_implemented rvn] else [])"

definition OI_STATION_default :: "OI_STATION" where
  "OI_STATION_default =
     fst (OI_STATION_init PyNone PyNone PyNone (PyList [PyNone, PyNone, PyNone]) PyNone PyNone 1)"

text \<open>The right operand of a comparison: a station or an object of another type.\<close>

datatype pyobj = Station OI_STATION | Other pyval

text \<open>
  \<^verbatim>\<open>OI_STATION.__eq__\<close>: the type test, then \<^verbatim>\<open>not (d1 or d2 or ... or d7)\<close> with the
  disjuncts evaluated left to right.
\<close>

fun OI_STATION_eq :: "OI_STATION \<Rightarrow> pyobj \<Rightarrow> error + bool" where
  "OI_STATION_eq self (Other v) = Inr False"
| "OI_STATION_eq self (Station other) =
     py_not
       (py_or (Inr (revision self \<noteq> revision other))
       (py_or (Inr (tel_name self \<noteq> tel_name other))
       (py_or (Inr (sta_name self \<noteq> sta_name other))
       (py_or (Inr (diameter self \<noteq> diameter other))
       (py_or (py_not (call__array_eq (staxyz self) (staxyz other)))
       (py_or (Inr (fov self \<noteq> fov other))
              (Inr (fovtype self \<noteq> fovtype other))))))))"

definition OI_STATION_ne :: "OI_STATION \<Rightarrow> pyobj \<Rightarrow> error + bool" where
  "OI_STATION_ne self other = py_not (OI_STATION_eq self other)"

section \<open>Headers and tables\<close>

text \<open>
  A Python \<^verbatim>\<open>dict\<close> whose insertion order matters, and a FITS header (an ordered mapping
  of keyword to value): assigning to a key replaces the value in place when the key is
  there and appends the key otherwise.
\<close>

fun dict_set :: "('k \<times> 'v) list \<Rightarrow> 'k \<Rightarrow> 'v \<Rightarrow> ('k \<times> 'v) list" where
  "dict_set [] k v = [(k, v)]"
| "dict_set ((k', v') # d) k v = (if k' = k then (k, v) # d else (k', v') # dict_set d k v)"

definition dict_get :: "('k \<times> 'v) list \<Rightarrow> 'k \<Rightarrow> 'v option" where
  "dict_get d k = map_of d k"

type_synonym header = "(string \<times> pyval) list"

text \<open>
  A table: named, typed columns and rows of cells. A cell holds a Python \<^verbatim>\<open>int\<close>
  (unbounded), a \<^verbatim>\<open>float\<close> (taken as an exact real), a string, or an array of numbers.
  \<open>Table_empty\<close> is \<^verbatim>\<open>Table()\<close> and \<open>Table_names_dtype\<close> is
  \<^verbatim>\<open>Table(names=..., dtype=...)\<close>.
\<close>

datatype dtype = DInt | DStr | DFloat

datatype cell = CInt int | CFloat real | CStr string | CArr "real list"

record table =
  colnames :: "string list"
  dtypes :: "dtype list"
  rows :: "cell list list"

definition Table_empty :: "table" where
  "Table_empty = \<lparr> colnames = [], dtypes = [], rows = [] \<rparr>"


section \<open>Floating-point values\<close>

text \<open>
  The values of a binary floating-point number: a finite value (\<open>Fin 0\<close> is the positive
  zero), the negative zero, the two infinities and not-a-number (one value: the bits of
  its payload are not told apart). Sums and products follow the IEEE rules for zeros,
  infinities and not-a-number with rounding to nearest. The sum or product of two
  finite values is taken exact: the complex codec only multiplies by 0 and 1 and adds
  zeros, where the floating-point result is the exact one.
\<close>

datatype fl = Fin real | NZero | PInf | NInf | NaN

fun signbit :: "fl \<Rightarrow> bool" where
  "signbit (Fin r) = (r < 0)"
| "signbit NZero = True"
| "signbit PInf = False"
| "signbit NInf = True"
| "signbit NaN = False"

fun fl_val :: "fl \<Rightarrow> real" where
  "fl_val (Fin r) = r"
| "fl_val _ = 0"

fun is_inf :: "fl \<Rightarrow> bool" where
  "is_inf PInf = True"
| "is_inf NInf = True"
| "is_inf _ = False"

fun is_zero :: "fl \<Rightarrow> bool" where
  "is_zero (Fin r) = (r = 0)"
| "is_zero NZero = True"
| "is_zero _ = False"

fun fl_neg :: "fl \<Rightarrow> fl" where
  "fl_neg (Fin r) = (if r = 0 then NZero else Fin (- r))"
| "fl_neg NZero = Fin 0"
| "fl_neg PInf = NInf"
| "fl_neg NInf = PInf"
| "fl_neg NaN = NaN"

definition fl_mul :: "fl \<Rightarrow> fl \<Rightarrow> fl" where
  "fl_mul x y =
     (if x = NaN \<or> y = NaN then NaN
      else if (is_inf x \<and> is_zero y) \<or> (is_zero x \<and> is_inf y) then NaN
      else if is_inf x \<or> is_inf y then (if signbit x \<noteq> signbit y then NInf else PInf)
      else if fl_val x * fl_val y = 0 then (if signbit x \<noteq> signbit y then NZero else Fin 0)
      else Fin (fl_val x * fl_val y))"

definition fl_add :: "fl \<Rightarrow> fl \<Rightarrow> fl" where
  "fl_add x y =
     (if x = NaN \<or> y = NaN then NaN
      else if is_inf x \<and> is_inf y then (if x = y then x else NaN)
      else if is_inf x then x
      else if is_inf y then y
      else if is_zero x \<and> is_zero y then (if x = NZero \<and> y = NZero then NZero else Fin 0)
      else Fin (fl_val x + fl_val y))"

definition fl_sub :: "fl \<Rightarrow> fl \<Rightarrow> fl" where
  "fl_sub x y = fl_add x (fl_neg y)"

text \<open>
  A complex floating-point number is its real and its imaginary part. The product is
  the one of the array library's complex loop, \<^verbatim>\<open>(ar*br - ai*bi, ar*bi + ai*br)\<close>; a real
  operand of a complex operation is first cast to the complex number with imaginary
  part \<^verbatim>\<open>+0.0\<close>; \<open>cfl_j\<close> is the literal \<^verbatim>\<open>1j\<close>.
\<close>

type_synonym cfl = "fl \<times> fl"

definition cfl_mul :: "cfl \<Rightarrow> cfl \<Rightarrow> cfl" where
  "cfl_mul a b =
     (fl_sub (fl_mul (fst a) (fst b)) (fl_mul (snd a) (snd b)),
      fl_add (fl_mul (fst a) (snd b)) (fl_mul (snd a) (fst b)))"

definition cfl_add :: "cfl \<Rightarrow> cfl \<Rightarrow> cfl" where
  "cfl_add a b = (fl_add (fst a) (fst b), fl_add (snd a) (snd b))"

definition cfl_of_fl :: "fl \<Rightarrow> cfl" where
  "cfl_of_fl x = (x, Fin 0)"

definition cfl_j :: "cfl" where
  "cfl_j = (Fin 0, Fin 1)"

section \<open>Arrays, records and the library\<close>

text \<open>
  An N-dimensional array: its shape and its elements in row-major order. \<open>plane i a\<close> is
  \<^verbatim>\<open>a[i]\<close>, the \<open>i\<close>-th slice along the leading axis.
\<close>

record 'a ndarray =
  shape :: "nat list"
  elems :: "'a list"

definition plane :: "nat \<Rightarrow> 'a ndarray \<Rightarrow> 'a ndarray" where
  "plane i a =
     (let m = prod_list (tl (shape a))
      in \<lparr> shape = tl (shape a), elems = take m (drop (i * m) (elems a)) \<rparr>)"

text \<open>What a record or an object can hold as its data.\<close>

datatype payload =
    PNone
  | PTable table
  | PReal "fl ndarray"
  | PCpx "cfl ndarray"

record hdu =
  hdu_name :: string
  hdu_header :: header
  hdu_data :: payload

text \<open>
  The FITS and table library is not part of the repository. The calls the module makes
  into it are parameters of the model: the table constructor \<^verbatim>\<open>Table(hdu.data)\<close>, the two
  record constructors \<^verbatim>\<open>BinTableHDU(name=, data=, header=)\<close> and
  \<^verbatim>\<open>ImageHDU(name=, data=, header=)\<close>, which build the record's header from the header
  they are given and from the data, the header of a fresh \<^verbatim>\<open>PrimaryHDU()\<close>, the
  conversion \<open>Column_convert\<close> a table column applies to a value whose Python type is
  not the column's own (\<open>None\<close> when it refuses the value), and the writer
  \<^verbatim>\<open>HDUList.writeto(filename, overwrite=)\<close>, given the header of the primary record and
  the records after it, which fails with the state of the file system (no such
  directory, an empty name, a file that exists and is not to be overwritten).
\<close>

record fitslib =
  Table_init :: "payload \<Rightarrow> error + table"
  BinTableHDU :: "string \<Rightarrow> table \<Rightarrow> header \<Rightarrow> error + hdu"
  ImageHDU :: "string \<Rightarrow> payload \<Rightarrow> header \<Rightarrow> error + hdu"
  PrimaryHDU_header :: header
  Column_convert :: "dtype \<Rightarrow> cell \<Rightarrow> cell option"
  HDUList_writeto :: "header \<Rightarrow> hdu list \<Rightarrow> string \<Rightarrow> bool \<Rightarrow> error + unit"

text \<open>
  \<^verbatim>\<open>Table.add_row(vals=...)\<close>. A row whose length is not the number of columns is
  refused. Each value is then inserted into its column: a Python \<^verbatim>\<open>int\<close> goes into an
  integer column, which holds signed 64-bit integers, when it is in their range and is
  refused otherwise; a \<^verbatim>\<open>float\<close> goes into a float column and a string into a string
  column as they are; any other pairing is the library's conversion. A refusal in any
  column is a \<open>ValueError\<close> and leaves the table as it was; otherwise the row is
  appended.
\<close>

definition store_cell :: "fitslib \<Rightarrow> dtype \<Rightarrow> cell \<Rightarrow> cell option" where
  "store_cell L d v =
     (case (d, v) of
        (DInt, CInt i) \<Rightarrow> if - (2 ^ 63) \<le> i \<and> i < 2 ^ 63 then Some (CInt i) else None
      | (DFloat, CFloat r) \<Rightarrow> Some (CFloat r)
      | (DStr, CStr s) \<Rightarrow> Some (CStr s)
      | _ \<Rightarrow> Column_convert L d v)"

definition add_row :: "fitslib \<Rightarrow> table \<Rightarrow> cell list \<Rightarrow> error + table" where
  "add_row L t vals =
     (if length vals \<noteq> length (colnames t) then Inl ValueError
      else (case those (map2 (store_cell L) (dtypes t) vals) of
              None \<Rightarrow> Inl ValueError
            | Some row \<Rightarrow> Inr (t\<lparr> rows := rows t @ [row] \<rparr>)))"

section \<open>Extension kinds and their codecs\<close>

text \<open>
  The extension classes bound in the module once it is imported. \<^verbatim>\<open>NI_CATM\<close> and
  \<^verbatim>\<open>NI_KCOV\<close> are each defined twice; the later definition is the one the name refers
  to. (\<^verbatim>\<open>NI_OUT\<close>, which no kind list names, is left out.)
\<close>

datatype ext_class =
    OI_ARRAY | OI_WAVELENGTH | OI_TARGET | NI_CATM | NI_IOUT | NI_KIOUT
  | NI_KCOV | NI_KMAT | NI_MOD | NI_FOV

datatype codec = TableCodec | ArrayCodec | ComplexArrayCodec

text \<open>The generic class each kind inherits its \<^verbatim>\<open>from_hdu\<close> and \<^verbatim>\<open>to_hdu\<close> from.\<close>

fun codec_of :: "ext_class \<Rightarrow> codec" where
  "codec_of OI_ARRAY = TableCodec"
| "codec_of OI_WAVELENGTH = TableCodec"
| "codec_of OI_TARGET = TableCodec"
| "codec_of NI_CATM = ComplexArrayCodec"
| "codec_of NI_IOUT = TableCodec"
| "codec_of NI_KIOUT = TableCodec"
| "codec_of NI_KCOV = ArrayCodec"
| "codec_of NI_KMAT = ArrayCodec"
| "codec_of NI_MOD = TableCodec"
| "codec_of NI_FOV = TableCodec"

text \<open>
  The class attribute \<^verbatim>\<open>name\<close>. The later definition of \<^verbatim>\<open>NI_KCOV\<close> sets none, and
  neither does any of its base classes.
\<close>

fun class_name :: "ext_class \<Rightarrow> string option" where
  "class_name OI_ARRAY = Some ''OI_ARRAY''"
| "class_name OI_WAVELENGTH = Some ''OI_WAVELENGTH''"
| "class_name OI_TARGET = Some ''OI_TARGET''"
| "class_name NI_CATM = Some ''NI_CATM''"
| "class_name NI_IOUT = Some ''NI_IOUT''"
| "class_name NI_KIOUT = Some ''NI_KIOUT''"
| "class_name NI_KCOV = None"
| "class_name NI_KMAT = Some ''NI_KMAT''"
| "class_name NI_MOD = Some ''NI_MOD''"
| "class_name NI_FOV = Some ''NI_FOV''"

text \<open>
  \<^verbatim>\<open>getclass(classname)\<close>: the module attribute of that name, here for the names of the
  extension classes.
\<close>

definition getclass :: "string \<Rightarrow> error + ext_class" where
  "getclass classname =
     (case map_of
        [(''OI_ARRAY'', OI_ARRAY), (''OI_WAVELENGTH'', OI_WAVELENGTH), (''OI_TARGET'', OI_TARGET),
         (''NI_CATM'', NI_CATM), (''NI_IOUT'', NI_IOUT), (''NI_KIOUT'', NI_KIOUT),
         (''NI_KCOV'', NI_KCOV), (''NI_KMAT'', NI_KMAT), (''NI_MOD'', NI_MOD),
         (''NI_FOV'', NI_FOV)] classname of
        None \<Rightarrow> Inl AttributeError
      | Some c \<Rightarrow> Inr c)"

text \<open>
  An extension object: its class and the dataclass fields. Table kinds have no
  \<open>data_array\<close> field; for them it is \<open>PNone\<close> and never read.
\<close>

record ext_obj =
  cls :: ext_class
  data_table :: table
  header :: header
  data_array :: payload

subsection \<open>Table codec\<close>

definition NI_EXTENSION_from_hdu :: "fitslib \<Rightarrow> ext_class \<Rightarrow> hdu \<Rightarrow> error + ext_obj" where
  "NI_EXTENSION_from_hdu L c h =
     (case Table_init L (hdu_data h) of
        Inl e \<Rightarrow> Inl e
      | Inr t \<Rightarrow> Inr \<lparr> cls = c, data_table = t, header = hdu_header h, data_array = PNone \<rparr>)"

text \<open>
  \<^verbatim>\<open>to_hdu\<close> returns the record and assigns the record's header to \<^verbatim>\<open>self.header\<close>: the
  model returns the record together with the object after the call.
\<close>

definition NI_EXTENSION_to_hdu :: "fitslib \<Rightarrow> ext_obj \<Rightarrow> error + hdu \<times> ext_obj" where
  "NI_EXTENSION_to_hdu L self =
     (case class_name (cls self) of
        None \<Rightarrow> Inl AttributeError
      | Some n \<Rightarrow>
          (case BinTableHDU L n (data_table self) (header self) of
             Inl e \<Rightarrow> Inl e
           | Inr myhdu \<Rightarrow> Inr (myhdu, self\<lparr> header := hdu_header myhdu \<rparr>)))"

subsection \<open>Real array codec\<close>

definition NI_EXTENSION_ARRAY_from_hdu :: "ext_class \<Rightarrow> hdu \<Rightarrow> error + ext_obj" where
  "NI_EXTENSION_ARRAY_from_hdu c h =
     Inr \<lparr> cls = c, data_table = Table_empty, header = hdu_header h, data_array = hdu_data h \<rparr>"

definition NI_EXTENSION_ARRAY_to_hdu :: "fitslib \<Rightarrow> ext_obj \<Rightarrow> error + hdu \<times> ext_obj" where
  "NI_EXTENSION_ARRAY_to_hdu L self =
     (case class_name (cls self) of
        None \<Rightarrow> Inl AttributeError
      | Some n \<Rightarrow>
          (case ImageHDU L n (data_array self) (header self) of
             Inl e \<Rightarrow> Inl e
           | Inr myhdu \<Rightarrow> Inr (myhdu, self\<lparr> header := hdu_header myhdu \<rparr>)))"

subsection \<open>Complex array codec\<close>

text \<open>\<^verbatim>\<open>hdu.data.shape[0]\<close>; the shape of a table payload is its number of rows.\<close>

fun shape0 :: "payload \<Rightarrow> error + nat" where
  "shape0 PNone = Inl AttributeError"
| "shape0 (PTable t) = Inr (length (rows t))"
| "shape0 (PReal a) = (case shape a of [] \<Rightarrow> Inl IndexError | n # _ \<Rightarrow> Inr n)"
| "shape0 (PCpx a) = (case shape a of [] \<Rightarrow> Inl IndexError | n # _ \<Rightarrow> Inr n)"

text \<open>
  \<^verbatim>\<open>hdu.data[0] + 1j*hdu.data[1]\<close>, evaluated once the leading axis is known to have
  length 2: element by element, the second plane is multiplied by \<^verbatim>\<open>1j\<close> and added to
  the first, both planes cast to complex when they are real. The rows of a table
  support no arithmetic.
\<close>

definition merge_elem :: "cfl \<Rightarrow> cfl \<Rightarrow> cfl" where
  "merge_elem x y = cfl_add x (cfl_mul cfl_j y)"

definition merge_planes :: "'a ndarray \<Rightarrow> ('a \<Rightarrow> cfl) \<Rightarrow> cfl ndarray" where
  "merge_planes a emb =
     \<lparr> shape = tl (shape a),
       elems = map2 (\<lambda>x y. merge_elem (emb x) (emb y)) (elems (plane 0 a)) (elems (plane 1 a)) \<rparr>"

fun planes_to_complex :: "payload \<Rightarrow> error + cfl ndarray" where
  "planes_to_complex PNone = Inl TypeError"
| "planes_to_complex (PTable t) = Inl TypeError"
| "planes_to_complex (PReal a) = Inr (merge_planes a cfl_of_fl)"
| "planes_to_complex (PCpx a) = Inr (merge_planes a (\<lambda>z. z))"

definition NI_EXTENSION_CPX_ARRAY_from_hdu :: "ext_class \<Rightarrow> hdu \<Rightarrow> error + ext_obj" where
  "NI_EXTENSION_CPX_ARRAY_from_hdu c h =
     (case shape0 (hdu_data h) of
        Inl e \<Rightarrow> Inl e
      | Inr n \<Rightarrow>
          if n \<noteq> 2 then Inl AssertionError
          else (case planes_to_complex (hdu_data h) of
                  Inl e \<Rightarrow> Inl e
                | Inr z \<Rightarrow>
                    Inr \<lparr> cls = c, data_table = Table_empty, header = hdu_header h,
                          data_array = PCpx z \<rparr>))"

text \<open>
  \<^verbatim>\<open>np.array([self.data_array.real, self.data_array.imag], dtype=float)\<close>: the real parts
  followed by the imaginary parts under a new leading axis of length 2.
\<close>

fun real_valued_data :: "payload \<Rightarrow> error + fl ndarray" where
  "real_valued_data PNone = Inl AttributeError"
| "real_valued_data (PTable t) = Inl AttributeError"
| "real_valued_data (PReal a) =
     Inr \<lparr> shape = 2 # shape a, elems = elems a @ map (\<lambda>x. Fin 0) (elems a) \<rparr>"
| "real_valued_data (PCpx a) =
     Inr \<lparr> shape = 2 # shape a, elems = map fst (elems a) @ map snd (elems a) \<rparr>"

definition NI_EXTENSION_CPX_ARRAY_to_hdu :: "fitslib \<Rightarrow> ext_obj \<Rightarrow> error + hdu \<times> ext_obj" where
  "NI_EXTENSION_CPX_ARRAY_to_hdu L self =
     (case real_valued_data (data_array self) of
        Inl e \<Rightarrow> Inl e
      | Inr rv \<Rightarrow>
          (case class_name (cls self) of
             None \<Rightarrow> Inl AttributeError
           | Some n \<Rightarrow>
               (case ImageHDU L n (PReal rv) (header self) of
                  Inl e \<Rightarrow> Inl e
                | Inr myhdu \<Rightarrow> Inr (myhdu, self\<lparr> header := hdu_header myhdu \<rparr>))))"

subsection \<open>Dispatch on the class\<close>

definition from_hdu :: "fitslib \<Rightarrow> ext_class \<Rightarrow> hdu \<Rightarrow> error + ext_obj" where
  "from_hdu L c h =
     (case codec_of c of
        TableCodec \<Rightarrow> NI_EXTENSION_from_hdu L c h
      | ArrayCodec \<Rightarrow> NI_EXTENSION_ARRAY_from_hdu c h
      | ComplexArrayCodec \<Rightarrow> NI_EXTENSION_CPX_ARRAY_from_hdu c h)"

definition to_hdu :: "fitslib \<Rightarrow> ext_obj \<Rightarrow> error + hdu \<times> ext_obj" where
  "to_hdu L self =
     (case codec_of (cls self) of
        TableCodec \<Rightarrow> NI_EXTENSION_to_hdu L self
      | ArrayCodec \<Rightarrow> NI_EXTENSION_ARRAY_to_hdu L self
      | ComplexArrayCodec \<Rightarrow> NI_EXTENSION_CPX_ARRAY_to_hdu L self)"

text \<open>
  The two round trips of the complex codec on the data alone: encode then decode a
  complex array, and decode then encode a real array.
\<close>

definition codec_decode_encode :: "cfl ndarray \<Rightarrow> error + cfl ndarray" where
  "codec_decode_encode x =
     (case real_valued_data (PCpx x) of
        Inl e \<Rightarrow> Inl e
      | Inr rv \<Rightarrow> planes_to_complex (PReal rv))"

definition codec_encode_decode :: "fl ndarray \<Rightarrow> error + fl ndarray" where
  "codec_encode_decode y =
     (case planes_to_complex (PReal y) of
        Inl e \<Rightarrow> Inl e
      | Inr z \<Rightarrow> real_valued_data (PCpx z))"

section \<open>Target list\<close>

text \<open>
  \<^verbatim>\<open>OI_TARGET.from_scratch()\<close>: an object of the class with an empty table of eighteen
  named, typed columns and a fresh empty header.
\<close>

definition OI_TARGET_colnames :: "string list" where
  "OI_TARGET_colnames =
     [''TARGET_ID'', ''TARGET'', ''RAEP0'', ''DECEP0'',
      ''EQUINOX'', ''RA_ERR'', ''DEC_ERR'',
      ''SYSVEL'', ''VELTYP'', ''VELDEF'',
      ''PMRA'', ''PMDEC'', ''PMRA_ERR'', ''PMDEC_ERR'',
      ''PARALLAX'', ''PARA_ERR'', ''SPECTYP'', ''CATEGORY'']"

definition OI_TARGET_dtypes :: "dtype list" where
  "OI_TARGET_dtypes =
     [DInt, DStr, DFloat, DFloat,
      DFloat, DFloat, DFloat,
      DFloat, DStr, DStr,
      DFloat, DFloat, DFloat, DFloat,
      DFloat, DFloat, DStr, DStr]"


text \<open>
  The keyword arguments of \<^verbatim>\<open>add_target\<close> and their defaults: the identifier is a
  Python \<^verbatim>\<open>int\<close>, the names are strings, the other arguments are floats.
\<close>

record target_args =
  target_id :: int
  target :: string
  raep0 :: real
  decep0 :: real
  equinox :: real
  ra_err :: real
  dec_err :: real
  sysvel :: real
  veltyp :: string
  veldef :: string
  pmra :: real
  pmdec :: real
  pmra_err :: real
  pmdec_err :: real
  parallax :: real
  para_err :: real
  spectyp :: string
  category :: string

definition target_defaults :: "target_args" where
  "target_defaults =
     \<lparr> target_id = 0, target = ''MyTarget'', raep0 = 0, decep0 = 0,
       equinox = 0, ra_err = 0, dec_err = 0,
       sysvel = 0, veltyp = '''', veldef = '''',
       pmra = 0, pmdec = 0, pmra_err = 0, pmdec_err = 0,
       parallax = 0, para_err = 0, spectyp = '''', category = '''' \<rparr>"

definition target_vals :: "target_args \<Rightarrow> cell list" where
  "target_vals a =
     [CInt (target_id a), CStr (target a), CFloat (raep0 a), CFloat (decep0 a),
      CFloat (equinox a), CFloat (ra_err a), CFloat (dec_err a),
      CFloat (sysvel a), CStr (veltyp a), CStr (veldef a),
      CFloat (pmra a), CFloat (pmdec a), CFloat (pmra_err a), CFloat (pmdec_err a),
      CFloat (parallax a), CFloat (para_err a), CStr (spectyp a), CStr (category a)]"

text \<open>\<^verbatim>\<open>add_target\<close> mutates the object's table; the model returns the object after the call.\<close>

definition add_target :: "fitslib \<Rightarrow> ext_obj \<Rightarrow> target_args \<Rightarrow> error + ext_obj" where
  "add_target L self a =
     (case add_row L (data_table self) (target_vals a) of
        Inl e \<Rightarrow> Inl e
      | Inr t \<Rightarrow> Inr (self\<lparr> data_table := t \<rparr>))"

section \<open>The kind list and its partition\<close>

definition NIFITS_EXTENSIONS :: "string list" where
  "NIFITS_EXTENSIONS =
     [''OI_ARRAY'',
      ''OI_WAVELENGTH'',
      ''NI_CATM'',
      ''NI_FOV'',
      ''NI_KMAT'',
      ''NI_MOD'',
      ''NI_IOUT'',
      ''NI_KIOUT'',
      ''NI_KCOV'']"

definition STATIC_EXTENSIONS :: "bool list" where
  "STATIC_EXTENSIONS =
     [True,
      True,
      True,
      True,
      False,
      False,
      False,
      False,
      False]"

text \<open>
  Indexing an array with a boolean mask of the same length keeps the entries whose mask
  is true. Both lists above have nine entries.
\<close>

definition mask_index :: "'a list \<Rightarrow> bool list \<Rightarrow> 'a list" where
  "mask_index xs msk = map fst (filter snd (zip xs msk))"

definition extension_list :: "bool \<Rightarrow> bool \<Rightarrow> string list" where
  "extension_list static_only dynamic_only =
     (if static_only then mask_index NIFITS_EXTENSIONS STATIC_EXTENSIONS
      else if dynamic_only then mask_index NIFITS_EXTENSIONS (map Not STATIC_EXTENSIONS)
      else NIFITS_EXTENSIONS)"

section \<open>Container\<close>

text \<open>\<^verbatim>\<open>str.lower()\<close> on the ASCII names used here.\<close>

definition lower_char :: "char \<Rightarrow> char" where
  "lower_char c =
     (case map_of (zip ''ABCDEFGHIJKLMNOPQRSTUVWXYZ'' ''abcdefghijklmnopqrstuvwxyz'') c of
        None \<Rightarrow> c
      | Some d \<Rightarrow> d)"

definition lower :: "string \<Rightarrow> string" where
  "lower s = map lower_char s"

text \<open>
  The value of an attribute of the container: \<^verbatim>\<open>None\<close>, a header or an extension object.
  The container is the instance's attribute dictionary, so \<^verbatim>\<open>hasattr(self, k)\<close> is
  \<open>self k \<noteq> None\<close> and \<^verbatim>\<open>getattr(self, k)\<close> is the value stored there.
\<close>

datatype attr = AttrNone | AttrHeader header | AttrExt ext_obj

type_synonym nifits = "string \<rightharpoonup> attr"

text \<open>The fields of the dataclass \<^verbatim>\<open>nifits\<close>, every one with the default \<^verbatim>\<open>None\<close>.\<close>

definition nifits_fields :: "string list" where
  "nifits_fields =
     [''header'', ''ni_catm'', ''ni_fov'', ''ni_kmat'', ''oi_wavelength'', ''oi_target'',
      ''ni_mod'', ''ni_iout'', ''ni_kiout'', ''ni_kcov'']"

text \<open>
  The generated \<^verbatim>\<open>__init__\<close> called with keyword arguments: a keyword that is not a field
  is a \<open>TypeError\<close>; a field that is not given takes its default.
\<close>

definition nifits_init :: "(string \<times> attr) list \<Rightarrow> error + nifits" where
  "nifits_init kwargs =
     (if list_ex (\<lambda>k. k \<notin> set nifits_fields) (map fst kwargs) then Inl TypeError
      else Inr (\<lambda>k. if k \<in> set nifits_fields
                     then Some (case dict_get kwargs k of None \<Rightarrow> AttrNone | Some v \<Rightarrow> v)
                     else None))"

text \<open>
  \<^verbatim>\<open>nifits.from_nifits\<close> on an opened record list, seen as the mapping from record name to
  record that \<^verbatim>\<open>__contains__\<close> and \<^verbatim>\<open>[...]\<close> consult. The loop fills \<^verbatim>\<open>obj_dict\<close>; an
  exception raised by a decode leaves the loop and the function. (The diagnostic prints
  are not modelled.)
\<close>

fun load_loop ::
  "fitslib \<Rightarrow> (string \<rightharpoonup> hdu) \<Rightarrow> string list \<Rightarrow> (string \<times> attr) list
     \<Rightarrow> error + (string \<times> attr) list" where
  "load_loop L hdulist [] obj_dict = Inr obj_dict"
| "load_loop L hdulist (anext # rest) obj_dict =
     (case hdulist anext of
        Some h \<Rightarrow>
          (case getclass anext of
             Inl e \<Rightarrow> Inl e
           | Inr theclass \<Rightarrow>
               (case from_hdu L theclass h of
                  Inl e \<Rightarrow> Inl e
                | Inr theobj \<Rightarrow>
                    load_loop L hdulist rest (dict_set obj_dict (lower anext) (AttrExt theobj))))
      | None \<Rightarrow> load_loop L hdulist rest obj_dict)"

definition from_nifits :: "fitslib \<Rightarrow> (string \<rightharpoonup> hdu) \<Rightarrow> error + nifits" where
  "from_nifits L hdulist =
     (case hdulist ''PRIMARY'' of
        None \<Rightarrow> Inl KeyError
      | Some p \<Rightarrow>
          (case load_loop L hdulist NIFITS_EXTENSIONS [(''header'', AttrHeader (hdu_header p))] of
             Inl e \<Rightarrow> Inl e
           | Inr obj_dict \<Rightarrow> nifits_init obj_dict))"

text \<open>\<^verbatim>\<open>theobj.to_hdu()\<close> on whatever the attribute holds.\<close>

fun attr_to_hdu :: "fitslib \<Rightarrow> attr \<Rightarrow> error + hdu \<times> attr" where
  "attr_to_hdu L AttrNone = Inl AttributeError"
| "attr_to_hdu L (AttrHeader h) = Inl AttributeError"
| "attr_to_hdu L (AttrExt theobj) =
     (case to_hdu L theobj of
        Inl e \<Rightarrow> Inl e
      | Inr (thehdu, theobj') \<Rightarrow> Inr (thehdu, AttrExt theobj'))"

text \<open>
  The loop of \<^verbatim>\<open>nifits.to_nifits\<close>. Its state is the header of the primary record, the
  records appended after the primary one, and the container, whose objects \<^verbatim>\<open>to_hdu\<close>
  updates.
\<close>

fun save_loop ::
  "fitslib \<Rightarrow> string list \<Rightarrow> header \<times> hdu list \<times> nifits \<Rightarrow> error + header \<times> hdu list \<times> nifits" where
  "save_loop L [] st = Inr st"
| "save_loop L (anext # rest) (hdr, appended, self) =
     (case self (lower anext) of
        Some theobj \<Rightarrow>
          (case attr_to_hdu L theobj of
             Inl e \<Rightarrow> Inl e
           | Inr (thehdu, theobj') \<Rightarrow>
               save_loop L rest
                 (dict_set hdr anext (PyStr ''Included''), appended @ [thehdu],
                  self(lower anext \<mapsto> theobj')))
      | None \<Rightarrow>
          save_loop L rest (dict_set hdr anext (PyStr ''Not included''), appended, self))"

text \<open>
  What \<^verbatim>\<open>to_nifits\<close> returns and leaves behind: the record list (the primary record,
  whose header carries the manifest flags, and the records appended to it), whether it
  was written (file name and overwrite flag), and the container. When \<^verbatim>\<open>writefile\<close> is
  set, which is the default, the list is handed to the library's writer after the loop,
  and an error of the writer is an error of the save. The parameter \<^verbatim>\<open>static_hash\<close> is
  accepted and not used. The header is followed through the assignments
  \<^verbatim>\<open>hdu.header[anext] = ...\<close> of the loop; cards the library keeps for its own
  bookkeeping are not kind names and are left to \<open>PrimaryHDU_header\<close>.
\<close>

record saved =
  primary_header :: header
  records :: "hdu list"
  written :: "(string \<times> bool) option"
  container :: nifits

definition to_nifits ::
  "fitslib \<Rightarrow> nifits \<Rightarrow> string \<Rightarrow> bool \<Rightarrow> bool \<Rightarrow> string \<Rightarrow> bool \<Rightarrow> bool \<Rightarrow> error + saved" where
  "to_nifits L self filename static_only dynamic_only static_hash writefile overwrite =
     (case save_loop L (extension_list static_only dynamic_only) (PrimaryHDU_header L, [], self) of
        Inl e \<Rightarrow> Inl e
      | Inr (hdr, appended, self') \<Rightarrow>
          if writefile then
            (case HDUList_writeto L hdr appended filename overwrite of
               Inl e \<Rightarrow> Inl e
             | Inr u \<Rightarrow>
                 Inr \<lparr> primary_header = hdr, records = appended,
                       written = Some (filename, overwrite), container = self' \<rparr>)
          else
            Inr \<lparr> primary_header = hdr, records = appended, written = None,
                  container = self' \<rparr>)"

section \<open>Conditions on inputs, and concrete inputs\<close>

text \<open>
  \<open>decodes L hdulist k\<close>: the source has no record named \<open>k\<close>, or the class of that
  name decodes the record. \<open>encodes L self k\<close>: the container has no attribute for the
  kind \<open>k\<close>, or what the attribute holds answers \<^verbatim>\<open>to_hdu()\<close>; \<open>encoded L self k\<close> is
  then the record it answers with. \<open>flag_of self k\<close> is the manifest flag the save loop
  writes for \<open>k\<close>.
\<close>

definition decodes :: "fitslib \<Rightarrow> (string \<rightharpoonup> hdu) \<Rightarrow> string \<Rightarrow> bool" where
  "decodes L hdulist k =
     (case hdulist k of
        None \<Rightarrow> True
      | Some h \<Rightarrow>
          (case getclass k of
             Inl e \<Rightarrow> False
           | Inr c \<Rightarrow> (case from_hdu L c h of Inl e \<Rightarrow> False | Inr obj \<Rightarrow> True)))"

definition encodes :: "fitslib \<Rightarrow> nifits \<Rightarrow> string \<Rightarrow> bool" where
  "encodes L self k =
     (case self (lower k) of
        None \<Rightarrow> True
      | Some v \<Rightarrow> (case attr_to_hdu L v of Inl e \<Rightarrow> False | Inr r \<Rightarrow> True))"

definition encoded :: "fitslib \<Rightarrow> nifits \<Rightarrow> string \<Rightarrow> hdu option" where
  "encoded L self k =
     (case self (lower k) of
        None \<Rightarrow> None
      | Some v \<Rightarrow> (case attr_to_hdu L v of Inl e \<Rightarrow> None | Inr r \<Rightarrow> Some (fst r)))"

text \<open>
  The pairs of a real and an imaginary part that the merge of the two planes gives
  back unchanged.
\<close>

definition exact_pair :: "fl \<Rightarrow> fl \<Rightarrow> bool" where
  "exact_pair a b =
     (case b of
        Fin r \<Rightarrow> r < 0 \<or> a \<noteq> NZero
      | NZero \<Rightarrow> False
      | PInf \<Rightarrow> a = NaN
      | NInf \<Rightarrow> a = NaN
      | NaN \<Rightarrow> a = NaN)"

definition flag_of :: "nifits \<Rightarrow> string \<Rightarrow> pyval" where
  "flag_of self k = PyStr (if self (lower k) = None then ''Not included'' else ''Included'')"

text \<open>
  An instance of the library parameter on which the model can be run: a table payload
  converts to itself, a table record gets its name and its row count written into the
  header, an image record its name, a column refuses every value of another type, and
  the writer refuses the empty file name.
\<close>

definition fits_instance :: "fitslib" where
  "fits_instance =
     \<lparr> Table_init =
         (\<lambda>d. case d of PNone \<Rightarrow> Inr Table_empty | PTable t \<Rightarrow> Inr t | _ \<Rightarrow> Inl TypeError),
       BinTableHDU =
         (\<lambda>n t h. Inr \<lparr> hdu_name = n,
                        hdu_header = dict_set (dict_set h ''EXTNAME'' (PyStr n)) ''NAXIS2''
                                       (PyNum (of_nat (length (rows t)))),
                        hdu_data = PTable t \<rparr>),
       ImageHDU =
         (\<lambda>n d h. Inr \<lparr> hdu_name = n, hdu_header = dict_set h ''EXTNAME'' (PyStr n),
                        hdu_data = d \<rparr>),
       PrimaryHDU_header = [(''SIMPLE'', PyStr ''T'')],
       Column_convert = (\<lambda>d v. None),
       HDUList_writeto = (\<lambda>h rs fn ow. if fn = [] then Inl OSError else Inr ()) \<rparr>"

definition wavelength_table :: "table" where
  "wavelength_table =
     \<lparr> colnames = [''EFF_WAVE'', ''EFF_BAND''], dtypes = [DFloat, DFloat],
       rows = [[CFloat 4, CFloat 1]] \<rparr>"

definition fov_table :: "table" where
  "fov_table =
     \<lparr> colnames = [''INDEX'', ''offsets''], dtypes = [DInt, DFloat],
       rows = [[CInt 0, CArr [0, 0]]] \<rparr>"

definition array_table :: "table" where
  "array_table =
     \<lparr> colnames = [''TEL_NAME'', ''STA_NAME''], dtypes = [DStr, DStr],
       rows = [[CStr ''UT1'', CStr ''A0'']] \<rparr>"

definition wavelength_obj :: "ext_obj" where
  "wavelength_obj =
     \<lparr> cls = OI_WAVELENGTH, data_table = wavelength_table, header = [], data_array = PNone \<rparr>"

definition fov_obj :: "ext_obj" where
  "fov_obj =
     \<lparr> cls = NI_FOV, data_table = fov_table,
       header = [(''FOV_MODE'', PyStr ''diameter_gaussian_radial'')], data_array = PNone \<rparr>"

definition array_obj :: "ext_obj" where
  "array_obj =
     \<lparr> cls = OI_ARRAY, data_table = array_table, header = [], data_array = PNone \<rparr>"

definition catm_obj :: "ext_obj" where
  "catm_obj =
     \<lparr> cls = NI_CATM, data_table = Table_empty, header = [],
       data_array = PCpx \<lparr> shape = [1, 1, 2], elems = [(Fin 1, Fin 0), (Fin 0, Fin 1)] \<rparr> \<rparr>"

text \<open>A target list with one row whose stored header still says zero rows.\<close>

definition one_target :: "ext_obj" where
  "one_target =
     \<lparr> cls = OI_TARGET,
       data_table = \<lparr> colnames = OI_TARGET_colnames, dtypes = OI_TARGET_dtypes,
                      rows = [target_vals target_defaults] \<rparr>,
       header = [(''NAXIS2'', PyNum 0)], data_array = PNone \<rparr>"

text \<open>
  Containers: \<^verbatim>\<open>nifits()\<close>; the constructor called with a header and three of the static
  kinds; and the latter after the assignment \<^verbatim>\<open>self.oi_array = ...\<close> (the dataclass has
  no field for the array geometry).
\<close>

definition built :: "error + nifits \<Rightarrow> nifits" where
  "built r = (case r of Inl e \<Rightarrow> Map.empty | Inr self \<Rightarrow> self)"

definition default_container :: "nifits" where
  "default_container = built (nifits_init [])"

definition three_static_container :: "nifits" where
  "three_static_container =
     built (nifits_init
       [(''header'', AttrHeader []), (''oi_wavelength'', AttrExt wavelength_obj),
        (''ni_catm'', AttrExt catm_obj), (''ni_fov'', AttrExt fov_obj)])"

definition four_static_container :: "nifits" where
  "four_static_container = three_static_container(''oi_array'' \<mapsto> AttrExt array_obj)"

text \<open>
  A source with a wavelength grid, a field-of-view table and a transfer matrix whose
  leading axis has length 3.
\<close>

definition bad_catm_hdu :: "hdu" where
  "bad_catm_hdu =
     \<lparr> hdu_name = ''NI_CATM'', hdu_header = [],
       hdu_data = PReal \<lparr> shape = [3, 1, 1], elems = [Fin 1, Fin 2, Fin 3] \<rparr> \<rparr>"

definition bad_source :: "string \<rightharpoonup> hdu" where
  "bad_source =
     map_of
       [(''PRIMARY'', \<lparr> hdu_name = ''PRIMARY'', hdu_header = [], hdu_data = PNone \<rparr>),
        (''OI_WAVELENGTH'',
           \<lparr> hdu_name = ''OI_WAVELENGTH'', hdu_header = [], hdu_data = PTable wavelength_table \<rparr>),
        (''NI_CATM'', bad_catm_hdu),
        (''NI_FOV'', \<lparr> hdu_name = ''NI_FOV'', hdu_header = [], hdu_data = PTable fov_table \<rparr>)]"

section \<open>Station descriptor: properties\<close>

lemma OI_STATION_eq_cases:
  "OI_STATION_eq s (Station t) =
     (if revision s = revision t \<and> tel_name s = tel_name t \<and> sta_name s = sta_name t
         \<and> diameter s = diameter t
      then Inl NameError else Inr False)"
  by (simp add: py_or_def py_not_def call__array_eq_def)

text \<open>
  What the comparison of the position vectors would give through the function the
  module does define: on two lists, whether they are equal.
\<close>

lemma array_eq_lists: "array_eq (PyList xs) (PyList ys) = Inr (xs = ys)"
  by (auto simp: array_eq_def)

text \<open>
  C6. A station constructed with revision below 2 stores an unset field of view and an
  unset field-of-view mode, whatever the caller passed.
\<close>

theorem OI_STATION_init_fov_unset:
  "rvn < 2 \<Longrightarrow>
     fov (fst (OI_STATION_init tel sta diam xyz fov_arg fovtype_arg rvn)) = PyNone
   \<and> fovtype (fst (OI_STATION_init tel sta diam xyz fov_arg fovtype_arg rvn)) = PyNone"
  by (simp add: OI_STATION_init_def)

theorem OI_STATION_init_fov_unset_witness:
  "(1::int) < 2
   \<and> fov (fst (OI_STATION_init (PyStr ''UT1'') (PyStr ''A0'') (PyNum 8)
              (PyList [PyNum 0, PyNum 0, PyNum 0]) (PyNum 5) (PyStr ''radius'') 1)) = PyNone
   \<and> fovtype (fst (OI_STATION_init (PyStr ''UT1'') (PyStr ''A0'') (PyNum 8)
              (PyList [PyNum 0, PyNum 0, PyNum 0]) (PyNum 5) (PyStr ''radius'') 1)) = PyNone"
  using OI_STATION_init_fov_unset [of 1 "PyStr ''UT1''" "PyStr ''A0''" "PyNum 8"
      "PyList [PyNum 0, PyNum 0, PyNum 0]" "PyNum 5" "PyStr ''radius''"]
  by simp

text \<open>
  C5. Station equality is meant to be structural and never to raise. Comparing the
  default station with itself, every field agrees and the claim asks for equal;
  comparing it with a station that differs in one coordinate, the claim asks for
  unequal. Both times the code reaches the call of the unbound name \<^verbatim>\<open>_array_eq\<close> and
  raises \<open>NameError\<close>.
\<close>

theorem OI_STATION_eq_default_raises:
  "OI_STATION_eq OI_STATION_default (Station OI_STATION_default) = Inl NameError
   \<and> OI_STATION_eq OI_STATION_default
        (Station (OI_STATION_default \<lparr> staxyz := PyList [PyNum 1, PyNone, PyNone] \<rparr>))
       = Inl NameError"
  by (simp add: OI_STATION_default_def OI_STATION_init_def py_or_def py_not_def
      call__array_eq_def)

section \<open>Kind list: properties\<close>

lemma static_list:
  "mask_index NIFITS_EXTENSIONS STATIC_EXTENSIONS
     = [''OI_ARRAY'', ''OI_WAVELENGTH'', ''NI_CATM'', ''NI_FOV'']"
  by (simp add: mask_index_def NIFITS_EXTENSIONS_def STATIC_EXTENSIONS_def)

lemma dynamic_list:
  "mask_index NIFITS_EXTENSIONS (map Not STATIC_EXTENSIONS)
     = [''NI_KMAT'', ''NI_MOD'', ''NI_IOUT'', ''NI_KIOUT'', ''NI_KCOV'']"
  by (simp add: mask_index_def NIFITS_EXTENSIONS_def STATIC_EXTENSIONS_def)

text \<open>
  C4, as stated: the kind list covers the target list, classified static. The class
  \<^verbatim>\<open>OI_TARGET\<close> carries the name \<^verbatim>\<open>OI_TARGET\<close>, and that name is neither in the kind
  list nor among the static kinds.
\<close>

theorem kind_list_lacks_target_counterexample:
  "class_name OI_TARGET = Some ''OI_TARGET''
   \<and> ''OI_TARGET'' \<notin> set NIFITS_EXTENSIONS
   \<and> ''OI_TARGET'' \<notin> set (mask_index NIFITS_EXTENSIONS STATIC_EXTENSIONS)"
  unfolding static_list by (simp add: NIFITS_EXTENSIONS_def)

text \<open>
  C4, amended. The kind list and the mask have nine entries each. The static kinds are
  array geometry, wavelength grid, transfer matrix and field of view; the dynamic kinds
  are kernel matrix, modulation series, raw output, kernel output and output covariance.
  The two parts are disjoint, together they are the whole list, no kind is listed twice,
  and the class of each name has the payload variant of the format table.
\<close>

theorem kind_partition:
  "mask_index NIFITS_EXTENSIONS STATIC_EXTENSIONS
     = [''OI_ARRAY'', ''OI_WAVELENGTH'', ''NI_CATM'', ''NI_FOV'']
   \<and> mask_index NIFITS_EXTENSIONS (map Not STATIC_EXTENSIONS)
       = [''NI_KMAT'', ''NI_MOD'', ''NI_IOUT'', ''NI_KIOUT'', ''NI_KCOV'']
   \<and> set (mask_index NIFITS_EXTENSIONS STATIC_EXTENSIONS)
       \<inter> set (mask_index NIFITS_EXTENSIONS (map Not STATIC_EXTENSIONS)) = {}
   \<and> set (mask_index NIFITS_EXTENSIONS STATIC_EXTENSIONS)
       \<union> set (mask_index NIFITS_EXTENSIONS (map Not STATIC_EXTENSIONS))
       = set NIFITS_EXTENSIONS
   \<and> distinct NIFITS_EXTENSIONS
   \<and> length NIFITS_EXTENSIONS = 9 \<and> length STATIC_EXTENSIONS = 9
   \<and> map (\<lambda>n. map_sum id codec_of (getclass n)) NIFITS_EXTENSIONS
       = [Inr TableCodec, Inr TableCodec, Inr ComplexArrayCodec, Inr TableCodec,
          Inr ArrayCodec, Inr TableCodec, Inr TableCodec, Inr TableCodec, Inr ArrayCodec]"
proof -
  have u: "set [''OI_ARRAY'', ''OI_WAVELENGTH'', ''NI_CATM'', ''NI_FOV'']
             \<union> set [''NI_KMAT'', ''NI_MOD'', ''NI_IOUT'', ''NI_KIOUT'', ''NI_KCOV'']
           = set NIFITS_EXTENSIONS"
    unfolding NIFITS_EXTENSIONS_def set_append [symmetric] by simp
  show ?thesis
    unfolding static_list dynamic_list u
    by (simp add: NIFITS_EXTENSIONS_def STATIC_EXTENSIONS_def getclass_def)
qed

section \<open>Codecs: properties\<close>

text \<open>
  C7. The complex-array decode raises the assertion error exactly when the payload has a
  leading dimension and that dimension is not 2.
\<close>

theorem CPX_from_hdu_assertion:
  "NI_EXTENSION_CPX_ARRAY_from_hdu c h = Inl AssertionError
     \<longleftrightarrow> (\<exists>n. shape0 (hdu_data h) = Inr n \<and> n \<noteq> 2)"
  by (cases "hdu_data h")
     (auto simp: NI_EXTENSION_CPX_ARRAY_from_hdu_def split: list.splits sum.splits)

theorem CPX_from_hdu_assertion_witness:
  "NI_EXTENSION_CPX_ARRAY_from_hdu NI_CATM
     \<lparr> hdu_name = ''NI_CATM'', hdu_header = [],
       hdu_data = PReal \<lparr> shape = [3, 1, 1], elems = [Fin 1, Fin 2, Fin 3] \<rparr> \<rparr> = Inl AssertionError
   \<and> NI_EXTENSION_CPX_ARRAY_from_hdu NI_CATM
     \<lparr> hdu_name = ''NI_CATM'', hdu_header = [],
       hdu_data = PReal \<lparr> shape = [2, 1, 1], elems = [Fin 1, Fin 2] \<rparr> \<rparr> \<noteq> Inl AssertionError"
  using CPX_from_hdu_assertion [of NI_CATM "\<lparr> hdu_name = ''NI_CATM'', hdu_header = [],
       hdu_data = PReal \<lparr> shape = [3, 1, 1], elems = [Fin 1, Fin 2, Fin 3] \<rparr> \<rparr>"]
    CPX_from_hdu_assertion [of NI_CATM "\<lparr> hdu_name = ''NI_CATM'', hdu_header = [],
       hdu_data = PReal \<lparr> shape = [2, 1, 1], elems = [Fin 1, Fin 2] \<rparr> \<rparr>"]
  by simp

text \<open>
  The merge of a real and an imaginary part gives the pair back exactly for the pairs
  of \<open>exact_pair\<close>: a finite imaginary part other than the negative zero, with a real part
  that is not the negative zero unless the imaginary part is negative; or a real part
  that is not-a-number.
\<close>

lemma merge_elem_fixed:
  "merge_elem (cfl_of_fl a) (cfl_of_fl b) = (a, b) \<longleftrightarrow> exact_pair a b"
  by (cases a; cases b)
     (auto simp: merge_elem_def cfl_add_def cfl_mul_def cfl_j_def cfl_of_fl_def fl_sub_def
        fl_add_def fl_mul_def exact_pair_def)

lemma map_fixed: "map g zs = zs \<longleftrightarrow> list_all (\<lambda>z. g z = z) zs"
  by (induction zs) auto

lemma map2_fst_snd: "map2 f (map fst zs) (map snd zs) = map (\<lambda>z. f (fst z) (snd z)) zs"
  by (induction zs) auto

lemma split_fixed_parts:
  "length xs = length ys \<Longrightarrow>
     (map fst (map2 f xs ys) = xs \<and> map snd (map2 f xs ys) = ys)
       \<longleftrightarrow> list_all2 (\<lambda>a b. f a b = (a, b)) xs ys"
  by (induction xs ys rule: list_induct2) (auto simp: prod_eq_iff)

lemma split_fixed:
  assumes "length xs = length ys"
  shows "(map fst (map2 f xs ys) @ map snd (map2 f xs ys) = xs @ ys)
           \<longleftrightarrow> list_all2 (\<lambda>a b. f a b = (a, b)) xs ys"
proof -
  have "length (map fst (map2 f xs ys)) = length xs"
    using assms by simp
  then have "(map fst (map2 f xs ys) @ map snd (map2 f xs ys) = xs @ ys)
           \<longleftrightarrow> (map fst (map2 f xs ys) = xs \<and> map snd (map2 f xs ys) = ys)"
    by simp
  then show ?thesis
    using split_fixed_parts [OF assms, of f] by simp
qed

lemma decode_encode_elems:
  assumes "length (elems x) = prod_list (shape x)"
  shows "codec_decode_encode x =
           Inr \<lparr> shape = shape x,
                 elems = map (\<lambda>z. merge_elem (cfl_of_fl (fst z)) (cfl_of_fl (snd z))) (elems x) \<rparr>"
  using assms
  by (simp add: codec_decode_encode_def merge_planes_def plane_def Let_def map2_fst_snd)

lemma encode_decode_elems:
  assumes "shape y = 2 # r" "length (elems y) = 2 * prod_list r"
  shows "codec_encode_decode y =
           Inr \<lparr> shape = 2 # r,
                 elems =
                   map fst (map2 (\<lambda>a b. merge_elem (cfl_of_fl a) (cfl_of_fl b))
                              (elems (plane 0 y)) (elems (plane 1 y)))
                   @ map snd (map2 (\<lambda>a b. merge_elem (cfl_of_fl a) (cfl_of_fl b))
                              (elems (plane 0 y)) (elems (plane 1 y))) \<rparr>"
  using assms
  by (simp add: codec_encode_decode_def merge_planes_def plane_def Let_def)

lemma planes_cover:
  assumes "shape y = 2 # r" "length (elems y) = 2 * prod_list r"
  shows "elems (plane 0 y) @ elems (plane 1 y) = elems y"
    and "length (elems (plane 0 y)) = length (elems (plane 1 y))"
proof -
  let ?m = "prod_list r"
  have "take ?m (elems y) @ take ?m (drop ?m (elems y)) = elems y"
    using assms(2)
    by (metis append_take_drop_id length_drop mult_2 add_diff_cancel_left' take_all order_refl)
  then show "elems (plane 0 y) @ elems (plane 1 y) = elems y"
    using assms(1) by (simp add: plane_def Let_def)
  show "length (elems (plane 0 y)) = length (elems (plane 1 y))"
    using assms by (simp add: plane_def Let_def)
qed

text \<open>
  C3, as stated: decoding the encoding of any complex array gives the array back bit for
  bit, and encoding the decoding of any two-plane real array gives that array back. The
  element \<^verbatim>\<open>-0.0+1j\<close> comes back as \<^verbatim>\<open>+0.0+1j\<close>, the element \<^verbatim>\<open>1+inf j\<close> as
  \<^verbatim>\<open>nan+inf j\<close>, the element \<^verbatim>\<open>1-0.0j\<close> as \<^verbatim>\<open>1+0.0j\<close>; and the two planes
  \<^verbatim>\<open>[-0.0], [1.0]\<close> come back as \<^verbatim>\<open>[+0.0], [1.0]\<close>.
\<close>

theorem complex_codec_round_trip_counterexample:
  "codec_decode_encode \<lparr> shape = [1], elems = [(NZero, Fin 1)] \<rparr>
     = Inr \<lparr> shape = [1], elems = [(Fin 0, Fin 1)] \<rparr>
   \<and> codec_decode_encode \<lparr> shape = [1], elems = [(Fin 1, PInf)] \<rparr>
     = Inr \<lparr> shape = [1], elems = [(NaN, PInf)] \<rparr>
   \<and> codec_decode_encode \<lparr> shape = [1], elems = [(Fin 1, NZero)] \<rparr>
     = Inr \<lparr> shape = [1], elems = [(Fin 1, Fin 0)] \<rparr>
   \<and> codec_encode_decode \<lparr> shape = [2, 1], elems = [NZero, Fin 1] \<rparr>
     = Inr \<lparr> shape = [2, 1], elems = [Fin 0, Fin 1] \<rparr>"
  by (simp add: codec_decode_encode_def codec_encode_decode_def merge_planes_def plane_def
      merge_elem_def cfl_add_def cfl_mul_def cfl_j_def cfl_of_fl_def fl_sub_def
      fl_add_def fl_mul_def)

text \<open>
  C3, amended. On a complex array whose element count matches its shape, encoding and
  then decoding returns an array, and it returns the array it was given exactly when
  every element is an exact pair. On a real array with a leading axis of length 2 and
  an element count matching its shape, decoding and then encoding returns an array, and
  it returns the array it was given exactly when each element of the first plane forms
  an exact pair with the element at the same place of the second plane.
\<close>

theorem complex_codec_round_trip:
  "(length (elems x) = prod_list (shape x) \<longrightarrow>
      (\<exists>x'. codec_decode_encode x = Inr x')
      \<and> (codec_decode_encode x = Inr x
           \<longleftrightarrow> list_all (\<lambda>z. exact_pair (fst z) (snd z)) (elems x)))
   \<and> (shape y = 2 # r \<and> length (elems y) = 2 * prod_list r \<longrightarrow>
      (\<exists>y'. codec_encode_decode y = Inr y')
      \<and> (codec_encode_decode y = Inr y
           \<longleftrightarrow> list_all2 exact_pair (elems (plane 0 y)) (elems (plane 1 y))))"
proof -
  have one: "(\<exists>x'. codec_decode_encode x = Inr x')
      \<and> (codec_decode_encode x = Inr x
           \<longleftrightarrow> list_all (\<lambda>z. exact_pair (fst z) (snd z)) (elems x))"
    if wf: "length (elems x) = prod_list (shape x)"
  proof -
    let ?g = "\<lambda>z. merge_elem (cfl_of_fl (fst z)) (cfl_of_fl (snd z))"
    have "(\<lparr> shape = shape x, elems = map ?g (elems x) \<rparr> = x)
            \<longleftrightarrow> map ?g (elems x) = elems x"
      by (cases x) simp
    also have "\<dots> \<longleftrightarrow> list_all (\<lambda>z. ?g z = z) (elems x)"
      by (rule map_fixed)
    also have "\<dots> \<longleftrightarrow> list_all (\<lambda>z. exact_pair (fst z) (snd z)) (elems x)"
      by (simp add: merge_elem_fixed [symmetric] prod_eq_iff list_all_iff)
    finally show ?thesis
      by (simp add: decode_encode_elems [OF wf])
  qed
  have two: "(\<exists>y'. codec_encode_decode y = Inr y')
      \<and> (codec_encode_decode y = Inr y
           \<longleftrightarrow> list_all2 exact_pair (elems (plane 0 y)) (elems (plane 1 y)))"
    if sh: "shape y = 2 # r" and len: "length (elems y) = 2 * prod_list r"
  proof -
    let ?f = "\<lambda>a b. merge_elem (cfl_of_fl a) (cfl_of_fl b)"
    let ?a = "elems (plane 0 y)" and ?b = "elems (plane 1 y)"
    have "(\<lparr> shape = 2 # r,
             elems = map fst (map2 ?f ?a ?b) @ map snd (map2 ?f ?a ?b) \<rparr> = y)
            \<longleftrightarrow> map fst (map2 ?f ?a ?b) @ map snd (map2 ?f ?a ?b) = ?a @ ?b"
      using sh planes_cover(1) [OF sh len] by (cases y) auto
    also have "\<dots> \<longleftrightarrow> list_all2 (\<lambda>a b. ?f a b = (a, b)) ?a ?b"
      using planes_cover(2) [OF sh len] by (rule split_fixed)
    also have "\<dots> \<longleftrightarrow> list_all2 exact_pair ?a ?b"
      by (simp add: merge_elem_fixed)
    finally show ?thesis
      by (simp add: encode_decode_elems [OF sh len])
  qed
  from one two show ?thesis by blast
qed

theorem complex_codec_round_trip_witness:
  "codec_decode_encode \<lparr> shape = [1, 2], elems = [(Fin 1, Fin 0), (Fin 0, Fin (- 2))] \<rparr>
     = Inr \<lparr> shape = [1, 2], elems = [(Fin 1, Fin 0), (Fin 0, Fin (- 2))] \<rparr>
   \<and> codec_encode_decode \<lparr> shape = [2, 1, 2], elems = [Fin 1, Fin 0, Fin 0, Fin (- 2)] \<rparr>
     = Inr \<lparr> shape = [2, 1, 2], elems = [Fin 1, Fin 0, Fin 0, Fin (- 2)] \<rparr>"
  using complex_codec_round_trip
    [of "\<lparr> shape = [1, 2], elems = [(Fin 1, Fin 0), (Fin 0, Fin (- 2))] \<rparr>"
        "\<lparr> shape = [2, 1, 2], elems = [Fin 1, Fin 0, Fin 0, Fin (- 2)] \<rparr>" "[1, 2]"]
  by (simp add: exact_pair_def plane_def)

lemma table_class_has_name: "codec_of c = TableCodec \<Longrightarrow> \<exists>n. class_name c = Some n"
  by (cases c) simp_all

text \<open>
  C9. Encoding an object of a table kind: the class has a name, and the outcome follows
  the library's record constructor applied to the name, the current table and the
  stored header. When the constructor fails, so does the encode. When it builds a
  record, the encode returns that record and leaves the object with the record's
  header as its stored header, its table, class and other fields unchanged.
\<close>

theorem table_to_hdu_resync:
  assumes "codec_of (cls self) = TableCodec"
  shows "\<exists>n. class_name (cls self) = Some n \<and>
           (case BinTableHDU L n (data_table self) (header self) of
              Inl e \<Rightarrow> to_hdu L self = Inl e
            | Inr myhdu \<Rightarrow>
                \<exists>self'. to_hdu L self = Inr (myhdu, self')
                  \<and> header self' = hdu_header myhdu
                  \<and> data_table self' = data_table self
                  \<and> data_array self' = data_array self
                  \<and> cls self' = cls self)"
proof -
  from assms obtain n where n: "class_name (cls self) = Some n"
    using table_class_has_name by blast
  show ?thesis
    using assms n by (auto simp: to_hdu_def NI_EXTENSION_to_hdu_def split: sum.splits)
qed

theorem table_to_hdu_resync_witness:
  "codec_of (cls one_target) = TableCodec
   \<and> (\<exists>myhdu self'. to_hdu fits_instance one_target = Inr (myhdu, self')
         \<and> header one_target = [(''NAXIS2'', PyNum 0)]
         \<and> hdu_header myhdu = [(''NAXIS2'', PyNum 1), (''EXTNAME'', PyStr ''OI_TARGET'')]
         \<and> header self' = hdu_header myhdu
         \<and> data_table self' = data_table one_target)"
  using table_to_hdu_resync [of one_target fits_instance]
  by (fastforce simp: one_target_def fits_instance_def)

section \<open>Target list: properties\<close>


lemma store_target_row_refused:
  assumes "target_id a < - (2 ^ 63) \<or> 2 ^ 63 \<le> target_id a"
  shows "those (map2 (store_cell L) OI_TARGET_dtypes (target_vals a)) = None"
  using assms by (auto simp: OI_TARGET_dtypes_def target_vals_def store_cell_def)

lemma length_target_vals: "length (target_vals a) = 18"
  by (simp add: target_vals_def)


lemma add_target_out_of_range:
  assumes "dtypes (data_table self) = OI_TARGET_dtypes"
    and "length (colnames (data_table self)) = 18"
    and "target_id a < - (2 ^ 63) \<or> 2 ^ 63 \<le> target_id a"
  shows "add_target L self a = Inl ValueError"
  using assms(1,2) store_target_row_refused [OF assms(3), of L]
  by (simp add: add_target_def add_row_def length_target_vals)




section \<open>Container: properties\<close>

lemma dict_get_set: "dict_get (dict_set d k v) k' = (if k' = k then Some v else dict_get d k')"
  by (induction d) (auto simp: dict_get_def)

lemma lower_names:
  "lower ''OI_ARRAY'' = ''oi_array''"
  "lower ''OI_WAVELENGTH'' = ''oi_wavelength''"
  "lower ''NI_CATM'' = ''ni_catm''"
  "lower ''NI_FOV'' = ''ni_fov''"
  "lower ''NI_KMAT'' = ''ni_kmat''"
  "lower ''NI_MOD'' = ''ni_mod''"
  "lower ''NI_IOUT'' = ''ni_iout''"
  "lower ''NI_KIOUT'' = ''ni_kiout''"
  "lower ''NI_KCOV'' = ''ni_kcov''"
  by (simp_all add: lower_def lower_char_def)

lemma default_container_slots:
  "default_container ''oi_array'' = None"
  "default_container ''oi_wavelength'' = Some AttrNone"
  by (simp_all add: default_container_def built_def nifits_init_def nifits_fields_def
      dict_get_def)

lemma three_static_slots:
  "three_static_container ''oi_array'' = None"
  "three_static_container ''oi_wavelength'' = Some (AttrExt wavelength_obj)"
  "three_static_container ''ni_catm'' = Some (AttrExt catm_obj)"
  "three_static_container ''ni_fov'' = Some (AttrExt fov_obj)"
  "three_static_container ''ni_kmat'' = Some AttrNone"
  by (simp_all add: three_static_container_def built_def nifits_init_def nifits_fields_def
      dict_get_def)

lemma four_static_slots:
  "four_static_container ''oi_array'' = Some (AttrExt array_obj)"
  "four_static_container ''oi_wavelength'' = Some (AttrExt wavelength_obj)"
  "four_static_container ''ni_catm'' = Some (AttrExt catm_obj)"
  "four_static_container ''ni_fov'' = Some (AttrExt fov_obj)"
  by (simp_all add: four_static_container_def three_static_slots)

lemma to_hdu_static_objs:
  "\<exists>r. to_hdu fits_instance wavelength_obj = Inr r"
  "\<exists>r. to_hdu fits_instance catm_obj = Inr r"
  "\<exists>r. to_hdu fits_instance fov_obj = Inr r"
  "\<exists>r. to_hdu fits_instance array_obj = Inr r"
  by (simp_all add: to_hdu_def NI_EXTENSION_to_hdu_def NI_EXTENSION_CPX_ARRAY_to_hdu_def
      wavelength_obj_def catm_obj_def fov_obj_def array_obj_def fits_instance_def)

subsection \<open>Load\<close>

lemma getclass_NI_CATM: "getclass ''NI_CATM'' = Inr NI_CATM"
  by (simp add: getclass_def)

lemma from_hdu_NI_CATM: "from_hdu L NI_CATM h = NI_EXTENSION_CPX_ARRAY_from_hdu NI_CATM h"
  by (simp add: from_hdu_def)

lemma load_loop_bad_catm:
  assumes "hdulist ''NI_CATM'' = Some h" "shape0 (hdu_data h) = Inr n" "n \<noteq> 2"
  shows "load_loop L hdulist (''NI_CATM'' # rest) d = Inl AssertionError"
  using assms
  by (simp add: getclass_NI_CATM from_hdu_NI_CATM NI_EXTENSION_CPX_ARRAY_from_hdu_def)

lemma load_loop_step:
  "load_loop L hdulist (k # rest) d = Inl e' \<Longrightarrow>
     \<forall>d'. load_loop L hdulist rest d' = Inl AssertionError \<Longrightarrow>
     decodes L hdulist k \<Longrightarrow> e' = AssertionError"
  by (auto simp: decodes_def split: option.splits sum.splits)

lemma load_loop_fails_step:
  "\<forall>d'. \<exists>e. load_loop L hdulist rest d' = Inl e \<Longrightarrow>
     \<exists>e. load_loop L hdulist (k # rest) d = Inl e"
  by (auto split: option.splits sum.splits)

text \<open>
  A source that holds an array-geometry record decodes it and then fails in the
  constructor of the container, which has no field of that name.
\<close>

lemma load_with_array_geometry:
  "from_nifits fits_instance
     (bad_source(''NI_CATM'' := None,
        ''OI_ARRAY'' \<mapsto> \<lparr> hdu_name = ''OI_ARRAY'', hdu_header = [],
                           hdu_data = PTable array_table \<rparr>))
   = Inl TypeError"
  by (simp add: from_nifits_def bad_source_def NIFITS_EXTENSIONS_def
      getclass_def from_hdu_def NI_EXTENSION_from_hdu_def
      fits_instance_def lower_names nifits_init_def nifits_fields_def)

text \<open>
  C2, as stated: one malformed record fails its own decode only, and the other kinds of
  the source are still bound. On the source with a wavelength grid, a field-of-view
  table and a transfer matrix of leading length 3, the load returns the assertion error
  and no container; the field-of-view table of the same source is bound once the
  transfer matrix is taken out.
\<close>

theorem load_bad_shape_counterexample:
  "from_nifits fits_instance bad_source = Inl AssertionError
   \<and> map_sum id (\<lambda>self. self ''ni_fov'')
        (from_nifits fits_instance (bad_source(''NI_CATM'' := None)))
     = Inr (Some (AttrExt \<lparr> cls = NI_FOV, data_table = fov_table, header = [],
                           data_array = PNone \<rparr>))"
  by (simp add: from_nifits_def bad_source_def bad_catm_hdu_def NIFITS_EXTENSIONS_def
      getclass_def from_hdu_def NI_EXTENSION_from_hdu_def NI_EXTENSION_CPX_ARRAY_from_hdu_def
      fits_instance_def lower_names nifits_init_def nifits_fields_def dict_get_def)

text \<open>
  C2, amended. When the transfer-matrix record of a source has a leading dimension other
  than 2, the load fails as a whole and returns no container. When moreover the primary
  record is there and the two kinds before the transfer matrix in the kind list (array
  geometry, wavelength grid) are absent or decode, the error is the assertion error of
  the transfer-matrix decode.
\<close>

theorem load_aborts_on_bad_shape:
  assumes "hdulist ''NI_CATM'' = Some h" "shape0 (hdu_data h) = Inr n" "n \<noteq> 2"
  shows "(\<exists>e. from_nifits L hdulist = Inl e)
       \<and> (hdulist ''PRIMARY'' \<noteq> None \<and> decodes L hdulist ''OI_ARRAY''
            \<and> decodes L hdulist ''OI_WAVELENGTH''
          \<longrightarrow> from_nifits L hdulist = Inl AssertionError)"
proof -
  have bad: "\<And>rest d. load_loop L hdulist (''NI_CATM'' # rest) d = Inl AssertionError"
    using assms by (rule load_loop_bad_catm)
  have f2: "\<And>rest d. \<exists>e. load_loop L hdulist (''OI_WAVELENGTH'' # ''NI_CATM'' # rest) d = Inl e"
    by (rule load_loop_fails_step) (use bad in blast)
  have f1: "\<And>rest d.
      \<exists>e. load_loop L hdulist (''OI_ARRAY'' # ''OI_WAVELENGTH'' # ''NI_CATM'' # rest) d = Inl e"
    by (rule load_loop_fails_step) (use f2 in blast)
  have fails: "\<exists>e. from_nifits L hdulist = Inl e"
  proof (cases "hdulist ''PRIMARY''")
    case None
    then show ?thesis by (simp add: from_nifits_def)
  next
    case (Some p)
    obtain e where
      "load_loop L hdulist NIFITS_EXTENSIONS [(''header'', AttrHeader (hdu_header p))] = Inl e"
      using f1 unfolding NIFITS_EXTENSIONS_def by blast
    then show ?thesis using Some by (simp add: from_nifits_def del: load_loop.simps)
  qed
  have which: "from_nifits L hdulist = Inl AssertionError"
    if p: "hdulist ''PRIMARY'' \<noteq> None" and a: "decodes L hdulist ''OI_ARRAY''"
      and w: "decodes L hdulist ''OI_WAVELENGTH''"
  proof -
    from p obtain p' where p': "hdulist ''PRIMARY'' = Some p'" by blast
    have g2: "\<And>rest d.
        load_loop L hdulist (''OI_WAVELENGTH'' # ''NI_CATM'' # rest) d = Inl AssertionError"
    proof -
      fix rest d
      obtain e where e: "load_loop L hdulist (''OI_WAVELENGTH'' # ''NI_CATM'' # rest) d = Inl e"
        using f2 by blast
      have "e = AssertionError"
        using e _ w by (rule load_loop_step) (use bad in blast)
      with e show
        "load_loop L hdulist (''OI_WAVELENGTH'' # ''NI_CATM'' # rest) d = Inl AssertionError"
        by simp
    qed
    have g1: "\<And>rest d.
        load_loop L hdulist (''OI_ARRAY'' # ''OI_WAVELENGTH'' # ''NI_CATM'' # rest) d
          = Inl AssertionError"
    proof -
      fix rest d
      obtain e where
        e: "load_loop L hdulist (''OI_ARRAY'' # ''OI_WAVELENGTH'' # ''NI_CATM'' # rest) d = Inl e"
        using f1 by blast
      have "e = AssertionError"
        using e _ a by (rule load_loop_step) (use g2 in blast)
      with e show
        "load_loop L hdulist (''OI_ARRAY'' # ''OI_WAVELENGTH'' # ''NI_CATM'' # rest) d
           = Inl AssertionError"
        by simp
    qed
    show ?thesis
      unfolding from_nifits_def NIFITS_EXTENSIONS_def
      by (simp only: p' g1 option.case sum.case)
  qed
  from fails which show ?thesis by blast
qed

theorem load_aborts_on_bad_shape_witness:
  "bad_source ''NI_CATM'' = Some bad_catm_hdu
   \<and> shape0 (hdu_data bad_catm_hdu) = Inr 3
   \<and> from_nifits fits_instance bad_source = Inl AssertionError"
proof -
  have 1: "bad_source ''NI_CATM'' = Some bad_catm_hdu"
    by (simp add: bad_source_def)
  have 2: "shape0 (hdu_data bad_catm_hdu) = Inr 3"
    by (simp add: bad_catm_hdu_def)
  have 3: "bad_source ''PRIMARY'' \<noteq> None"
    by (simp add: bad_source_def)
  have 4: "decodes fits_instance bad_source ''OI_ARRAY''"
    by (simp add: decodes_def bad_source_def)
  have 5: "decodes fits_instance bad_source ''OI_WAVELENGTH''"
    by (simp add: decodes_def bad_source_def getclass_def from_hdu_def NI_EXTENSION_from_hdu_def
        fits_instance_def)
  show ?thesis
    using load_aborts_on_bad_shape [of bad_source bad_catm_hdu 3 fits_instance] 1 2 3 4 5
    by simp
qed

subsection \<open>Save\<close>

lemma flag_of_upd:
  "self k = Some v \<Longrightarrow> flag_of (self(k \<mapsto> v')) K = flag_of self K"
  by (simp add: flag_of_def)

lemma encodes_upd:
  "lower K \<noteq> k \<Longrightarrow> encodes L (self(k \<mapsto> v')) K = encodes L self K"
  by (simp add: encodes_def)

lemma encoded_upd:
  "lower K \<noteq> k \<Longrightarrow> encoded L (self(k \<mapsto> v')) K = encoded L self K"
  by (simp add: encoded_def)

lemma map_filter_cong:
  "\<forall>x\<in>set xs. f x = g x \<Longrightarrow> List.map_filter f xs = List.map_filter g xs"
  by (induction xs) (auto simp: List.map_filter_simps split: option.splits)

text \<open>What a run of the save loop that returns has done.\<close>

lemma save_loop_result:
  assumes "save_loop L ks (hdr, app, self) = Inr (hdr', app', self')"
  shows "(\<forall>K. dict_get hdr' K = (if K \<in> set ks then Some (flag_of self K) else dict_get hdr K))
      \<and> length app' = length app + length (filter (\<lambda>K. self (lower K) \<noteq> None) ks)
      \<and> (\<forall>k. k \<notin> lower ` set ks \<longrightarrow> self' k = self k)
      \<and> (\<forall>k. (self' k = None) = (self k = None))"
  using assms
proof (induction ks arbitrary: hdr app self)
  case Nil
  then show ?case by simp
next
  case (Cons a ks)
  show ?case
  proof (cases "self (lower a)")
    case None
    let ?h = "dict_set hdr a (PyStr ''Not included'')"
    have r: "save_loop L ks (?h, app, self) = Inr (hdr', app', self')"
      using Cons.prems None by simp
    note ih = Cons.IH [OF r]
    have "\<forall>K. dict_get hdr' K
        = (if K \<in> set (a # ks) then Some (flag_of self K) else dict_get hdr K)"
      using ih None by (simp add: dict_get_set flag_of_def)
    moreover have
      "length app' = length app + length (filter (\<lambda>K. self (lower K) \<noteq> None) (a # ks))"
      using ih None by simp
    moreover have "\<forall>k. k \<notin> lower ` set (a # ks) \<longrightarrow> self' k = self k"
      using ih by simp
    ultimately show ?thesis using ih by blast
  next
    case (Some v)
    from Cons.prems Some obtain thehdu v' where t: "attr_to_hdu L v = Inr (thehdu, v')"
      by (auto split: sum.splits)
    let ?h = "dict_set hdr a (PyStr ''Included'')"
    let ?self = "self(lower a \<mapsto> v')"
    have r: "save_loop L ks (?h, app @ [thehdu], ?self) = Inr (hdr', app', self')"
      using Cons.prems Some t by simp
    note ih = Cons.IH [OF r]
    have fl: "\<And>K. flag_of ?self K = flag_of self K"
      using Some by (rule flag_of_upd)
    have nn: "\<And>k. (?self k = None) = (self k = None)"
      using Some by simp
    have "\<forall>K. dict_get hdr' K
        = (if K \<in> set (a # ks) then Some (flag_of self K) else dict_get hdr K)"
      using ih Some unfolding fl by (simp add: dict_get_set flag_of_def)
    moreover have
      "length app' = length app + length (filter (\<lambda>K. self (lower K) \<noteq> None) (a # ks))"
      using ih Some unfolding nn by simp
    moreover have "\<forall>k. k \<notin> lower ` set (a # ks) \<longrightarrow> self' k = self k"
      using ih by simp
    moreover have "\<forall>k. (self' k = None) = (self k = None)"
      using ih unfolding nn by blast
    ultimately show ?thesis by blast
  qed
qed

text \<open>
  On kinds with distinct attribute names, each absent from the container or encoding,
  the loop returns, and the records it appends are those the attributes answer with.
\<close>

lemma save_loop_succeeds:
  assumes "distinct (map lower ks)" "list_all (encodes L self) ks"
  shows "\<exists>hdr' self'. save_loop L ks (hdr, app, self)
           = Inr (hdr', app @ List.map_filter (encoded L self) ks, self')"
  using assms
proof (induction ks arbitrary: hdr app self)
  case Nil
  then show ?case by (simp add: List.map_filter_simps)
next
  case (Cons a ks)
  have d: "distinct (map lower ks)"
    using Cons.prems(1) by simp
  have "lower a \<notin> lower ` set ks"
    using Cons.prems(1) by simp
  then have na: "\<forall>K\<in>set ks. lower K \<noteq> lower a"
    by (metis imageI)
  have ea: "encodes L self a" and es: "list_all (encodes L self) ks"
    using Cons.prems(2) by simp_all
  show ?case
  proof (cases "self (lower a)")
    case None
    from Cons.IH [OF d es, of "dict_set hdr a (PyStr ''Not included'')" app]
    show ?thesis
      using None by (simp add: List.map_filter_simps encoded_def)
  next
    case (Some v)
    from ea Some obtain thehdu v' where t: "attr_to_hdu L v = Inr (thehdu, v')"
      by (auto simp: encodes_def split: sum.splits)
    let ?self = "self(lower a \<mapsto> v')"
    have es': "list_all (encodes L ?self) ks"
      using es na by (simp add: list_all_iff encodes_upd)
    have "\<forall>K\<in>set ks. encoded L ?self K = encoded L self K"
      using na by (simp add: encoded_upd)
    then have mf: "List.map_filter (encoded L ?self) ks = List.map_filter (encoded L self) ks"
      by (rule map_filter_cong)
    have ena: "encoded L self a = Some thehdu"
      using Some t by (simp add: encoded_def)
    have "\<exists>hdr' self'. save_loop L ks (dict_set hdr a (PyStr ''Included''), app @ [thehdu], ?self)
            = Inr (hdr', (app @ [thehdu]) @ List.map_filter (encoded L ?self) ks, self')"
      using d es' by (rule Cons.IH)
    then obtain hdr' self' where
      "save_loop L ks (dict_set hdr a (PyStr ''Included''), app @ [thehdu], ?self)
         = Inr (hdr', (app @ [thehdu]) @ List.map_filter (encoded L self) ks, self')"
      unfolding mf by blast
    then have "save_loop L (a # ks) (hdr, app, self)
         = Inr (hdr', app @ List.map_filter (encoded L self) (a # ks), self')"
      using Some t by (simp add: List.map_filter_simps ena)
    then show ?thesis by blast
  qed
qed

text \<open>The loop reads the container only at the attributes of the kinds it walks.\<close>

lemma save_loop_cong:
  assumes "\<forall>k\<in>lower ` set ks. self2 k = self k"
  shows "map_sum (\<lambda>e. e) (\<lambda>st. (fst st, fst (snd st))) (save_loop L ks (hdr, app, self2))
       = map_sum (\<lambda>e. e) (\<lambda>st. (fst st, fst (snd st))) (save_loop L ks (hdr, app, self))"
  using assms
proof (induction ks arbitrary: hdr app self self2)
  case Nil
  then show ?case by simp
next
  case (Cons a ks)
  have same: "self2 (lower a) = self (lower a)"
    using Cons.prems by simp
  show ?case
  proof (cases "self (lower a)")
    case None
    have "\<forall>k\<in>lower ` set ks. self2 k = self k"
      using Cons.prems by simp
    from Cons.IH [OF this] show ?thesis
      using None same by simp
  next
    case (Some v)
    show ?thesis
    proof (cases "attr_to_hdu L v")
      case (Inl e)
      then show ?thesis using Some same by simp
    next
      case (Inr p)
      obtain thehdu v' where p: "p = (thehdu, v')" by (cases p)
      have "\<forall>k\<in>lower ` set ks. (self2(lower a \<mapsto> v')) k = (self(lower a \<mapsto> v')) k"
        using Cons.prems by simp
      then have "map_sum (\<lambda>e. e) (\<lambda>st. (fst st, fst (snd st)))
            (save_loop L ks (dict_set hdr a (PyStr ''Included''), app @ [thehdu],
               self2(lower a \<mapsto> v')))
          = map_sum (\<lambda>e. e) (\<lambda>st. (fst st, fst (snd st)))
            (save_loop L ks (dict_set hdr a (PyStr ''Included''), app @ [thehdu],
               self(lower a \<mapsto> v')))"
        by (rule Cons.IH)
      then show ?thesis
        using Some same Inr p by simp
    qed
  qed
qed

lemma distinct_lower_extension_list:
  "distinct (map lower (extension_list static_only dynamic_only))"
  unfolding extension_list_def static_list dynamic_list
  by (simp add: NIFITS_EXTENSIONS_def lower_names)

lemma extension_list_static:
  "extension_list True dynamic_only = [''OI_ARRAY'', ''OI_WAVELENGTH'', ''NI_CATM'', ''NI_FOV'']"
  by (simp add: extension_list_def static_list)

lemma to_nifits_result:
  assumes "to_nifits L self filename static_only dynamic_only static_hash writefile overwrite
             = Inr r"
  shows "save_loop L (extension_list static_only dynamic_only) (PrimaryHDU_header L, [], self)
           = Inr (primary_header r, records r, container r)"
  using assms
  by (auto simp: to_nifits_def split: sum.splits if_splits)

lemma to_nifits_cong:
  assumes "map_sum (\<lambda>e. e) (\<lambda>st. (fst st, fst (snd st)))
             (save_loop L (extension_list so dyo) (PrimaryHDU_header L, [], self2))
         = map_sum (\<lambda>e. e) (\<lambda>st. (fst st, fst (snd st)))
             (save_loop L (extension_list so dyo) (PrimaryHDU_header L, [], self))"
  shows "map_sum (\<lambda>e. e) (\<lambda>r. (primary_header r, records r, written r))
           (to_nifits L self2 filename so dyo static_hash writefile overwrite)
       = map_sum (\<lambda>e. e) (\<lambda>r. (primary_header r, records r, written r))
           (to_nifits L self filename so dyo static_hash writefile overwrite)"
  using assms
  by (auto simp: to_nifits_def split: sum.splits)

text \<open>
  C10. With both flags set the selection is the four static kinds, and the save is the
  save with \<^verbatim>\<open>static_only\<close> alone. When it returns, it has written a flag for each of
  the four static kinds and for no other keyword, it has appended one record for each
  static attribute of the container, and every other attribute of the container is as
  it was. What it returns and whether it fails depends on the container only through
  the four static attributes: the dynamic kinds are not looked at.
\<close>

theorem static_only_precedence:
  "extension_list True True = [''OI_ARRAY'', ''OI_WAVELENGTH'', ''NI_CATM'', ''NI_FOV'']
   \<and> to_nifits L self filename True True static_hash writefile overwrite
       = to_nifits L self filename True False static_hash writefile overwrite
   \<and> (to_nifits L self filename True True static_hash writefile overwrite = Inr r \<longrightarrow>
        (\<forall>K. dict_get (primary_header r) K
           = (if K \<in> set [''OI_ARRAY'', ''OI_WAVELENGTH'', ''NI_CATM'', ''NI_FOV'']
              then Some (PyStr (if self (lower K) = None then ''Not included'' else ''Included''))
              else dict_get (PrimaryHDU_header L) K))
        \<and> length (records r)
            = length (filter (\<lambda>K. self (lower K) \<noteq> None)
                [''OI_ARRAY'', ''OI_WAVELENGTH'', ''NI_CATM'', ''NI_FOV''])
        \<and> (\<forall>k. k \<notin> set [''oi_array'', ''oi_wavelength'', ''ni_catm'', ''ni_fov'']
              \<longrightarrow> container r k = self k))
   \<and> ((\<forall>k\<in>set [''oi_array'', ''oi_wavelength'', ''ni_catm'', ''ni_fov'']. self2 k = self k)
        \<longrightarrow> map_sum (\<lambda>e. e) (\<lambda>r. (primary_header r, records r, written r))
              (to_nifits L self2 filename True True static_hash writefile overwrite)
          = map_sum (\<lambda>e. e) (\<lambda>r. (primary_header r, records r, written r))
              (to_nifits L self filename True True static_hash writefile overwrite))"
proof -
  let ?sel = "[''OI_ARRAY'', ''OI_WAVELENGTH'', ''NI_CATM'', ''NI_FOV'']"
  have sel: "extension_list True True = ?sel"
    by (rule extension_list_static)
  have low: "lower ` set ?sel = set [''oi_array'', ''oi_wavelength'', ''ni_catm'', ''ni_fov'']"
    by (simp add: lower_names)
  have eq: "to_nifits L self filename True True static_hash writefile overwrite
       = to_nifits L self filename True False static_hash writefile overwrite"
    by (simp add: to_nifits_def extension_list_static)
  have res: "(\<forall>K. dict_get (primary_header r) K
           = (if K \<in> set ?sel
              then Some (PyStr (if self (lower K) = None then ''Not included'' else ''Included''))
              else dict_get (PrimaryHDU_header L) K))
        \<and> length (records r) = length (filter (\<lambda>K. self (lower K) \<noteq> None) ?sel)
        \<and> (\<forall>k. k \<notin> set [''oi_array'', ''oi_wavelength'', ''ni_catm'', ''ni_fov'']
              \<longrightarrow> container r k = self k)"
    if "to_nifits L self filename True True static_hash writefile overwrite = Inr r"
  proof -
    have "save_loop L ?sel (PrimaryHDU_header L, [], self)
            = Inr (primary_header r, records r, container r)"
      using to_nifits_result [OF that] unfolding sel .
    from save_loop_result [OF this] show ?thesis
      unfolding low by (simp add: flag_of_def)
  qed
  have cong: "map_sum (\<lambda>e. e) (\<lambda>r. (primary_header r, records r, written r))
              (to_nifits L self2 filename True True static_hash writefile overwrite)
          = map_sum (\<lambda>e. e) (\<lambda>r. (primary_header r, records r, written r))
              (to_nifits L self filename True True static_hash writefile overwrite)"
    if "\<forall>k\<in>set [''oi_array'', ''oi_wavelength'', ''ni_catm'', ''ni_fov'']. self2 k = self k"
  proof -
    have "\<forall>k\<in>lower ` set (extension_list True True). self2 k = self k"
      using that unfolding sel low .
    from save_loop_cong [OF this] show ?thesis
      by (rule to_nifits_cong)
  qed
  from sel eq res cong show ?thesis by blast
qed

theorem static_only_precedence_witness:
  "three_static_container ''ni_kmat'' = Some AttrNone
   \<and> (\<exists>r. to_nifits fits_instance three_static_container ''out.nifits'' True True [] False False
            = Inr r
        \<and> map (dict_get (primary_header r)) NIFITS_EXTENSIONS
            = [Some (PyStr ''Not included''), Some (PyStr ''Included''),
               Some (PyStr ''Included''), Some (PyStr ''Included''),
               None, None, None, None, None]
        \<and> length (records r) = 3
        \<and> container r ''ni_kmat'' = Some AttrNone
        \<and> (\<exists>r2. to_nifits fits_instance (three_static_container (''ni_kmat'' := None))
                    ''out.nifits'' True True [] False False = Inr r2
              \<and> primary_header r2 = primary_header r \<and> records r2 = records r
              \<and> written r2 = written r))"
proof -
  let ?s2 = "three_static_container (''ni_kmat'' := None)"
  have ok: "\<exists>r. to_nifits fits_instance three_static_container ''out.nifits'' True True []
                  False False = Inr r"
    unfolding to_nifits_def extension_list_static
    by (simp add: lower_names three_static_slots to_hdu_def NI_EXTENSION_to_hdu_def
        NI_EXTENSION_CPX_ARRAY_to_hdu_def wavelength_obj_def catm_obj_def fov_obj_def
        fits_instance_def)
  then obtain r where
    r: "to_nifits fits_instance three_static_container ''out.nifits'' True True [] False False
          = Inr r"
    by blast
  have same: "\<forall>k\<in>set [''oi_array'', ''oi_wavelength'', ''ni_catm'', ''ni_fov''].
                ?s2 k = three_static_container k"
    by simp
  have f: "\<And>K. dict_get (primary_header r) K
           = (if K \<in> set [''OI_ARRAY'', ''OI_WAVELENGTH'', ''NI_CATM'', ''NI_FOV'']
              then Some (PyStr (if three_static_container (lower K) = None
                                then ''Not included'' else ''Included''))
              else dict_get (PrimaryHDU_header fits_instance) K)"
    and l: "length (records r)
            = length (filter (\<lambda>K. three_static_container (lower K) \<noteq> None)
                [''OI_ARRAY'', ''OI_WAVELENGTH'', ''NI_CATM'', ''NI_FOV''])"
    and c: "\<And>k. k \<notin> set [''oi_array'', ''oi_wavelength'', ''ni_catm'', ''ni_fov'']
              \<Longrightarrow> container r k = three_static_container k"
    and n: "map_sum (\<lambda>e. e) (\<lambda>r. (primary_header r, records r, written r))
              (to_nifits fits_instance ?s2 ''out.nifits'' True True [] False False)
          = map_sum (\<lambda>e. e) (\<lambda>r. (primary_header r, records r, written r))
              (to_nifits fits_instance three_static_container ''out.nifits'' True True []
                 False False)"
    using static_only_precedence
      [of fits_instance three_static_container "''out.nifits''" "[]" False False r ?s2] r same
    by blast+
  have "map (dict_get (primary_header r)) NIFITS_EXTENSIONS
            = [Some (PyStr ''Not included''), Some (PyStr ''Included''),
               Some (PyStr ''Included''), Some (PyStr ''Included''),
               None, None, None, None, None]"
    unfolding NIFITS_EXTENSIONS_def f
    by (simp add: lower_names three_static_slots fits_instance_def dict_get_def)
  moreover have "length (records r) = 3"
    unfolding l by (simp add: lower_names three_static_slots)
  moreover have "container r ''ni_kmat'' = Some AttrNone"
    using c [of "''ni_kmat''"] by (simp add: three_static_slots)
  moreover have "\<exists>r2. to_nifits fits_instance ?s2 ''out.nifits'' True True [] False False = Inr r2
              \<and> primary_header r2 = primary_header r \<and> records r2 = records r
              \<and> written r2 = written r"
    using n unfolding r
    by (cases "to_nifits fits_instance ?s2 ''out.nifits'' True True [] False False") auto
  ultimately show ?thesis
    using r three_static_slots(5) by (auto intro!: exI [of _ r])
qed

text \<open>
  C1, as stated: an unpopulated slot of a selected kind is flagged and the save goes on,
  and a static-only save of a container holding the four static kinds flags every
  remaining kind. The container \<^verbatim>\<open>nifits()\<close>, whose slots all hold \<^verbatim>\<open>None\<close>, fails to
  save with an attribute error; and the static-only save of the container holding the
  four static kinds writes four flags and none for the five other kinds of the list.
\<close>

theorem save_unpopulated_counterexample:
  "to_nifits fits_instance default_container ''out.nifits'' False False [] False False
     = Inl AttributeError
   \<and> map_sum id (\<lambda>r. map (dict_get (primary_header r)) NIFITS_EXTENSIONS)
        (to_nifits fits_instance four_static_container ''out.nifits'' True False [] False False)
     = Inr [Some (PyStr ''Included''), Some (PyStr ''Included''), Some (PyStr ''Included''),
            Some (PyStr ''Included''), None, None, None, None, None]"
proof -
  have a: "to_nifits fits_instance default_container ''out.nifits'' False False [] False False
             = Inl AttributeError"
    by (simp add: to_nifits_def extension_list_def NIFITS_EXTENSIONS_def lower_names
        default_container_slots)
  have b: "map_sum id (\<lambda>r. map (dict_get (primary_header r)) NIFITS_EXTENSIONS)
        (to_nifits fits_instance four_static_container ''out.nifits'' True False [] False False)
     = Inr [Some (PyStr ''Included''), Some (PyStr ''Included''), Some (PyStr ''Included''),
            Some (PyStr ''Included''), None, None, None, None, None]"
    unfolding to_nifits_def extension_list_def static_list
    by (simp add: lower_names four_static_slots to_hdu_def NI_EXTENSION_to_hdu_def
        NI_EXTENSION_CPX_ARRAY_to_hdu_def wavelength_obj_def catm_obj_def fov_obj_def
        array_obj_def fits_instance_def NIFITS_EXTENSIONS_def dict_get_def)
  from a b show ?thesis by blast
qed

text \<open>
  C1, amended. Whenever each selected kind is either not an attribute of the container
  or an attribute that encodes, the loop of the save does not fail and visits every
  selected kind: a selected kind that is not an attribute is flagged \<^verbatim>\<open>Not included\<close>,
  a selected kind that is one is flagged \<^verbatim>\<open>Included\<close> and contributes its record, in
  the order of the kind list; a kind outside the selection gets no flag (its card is
  what the fresh primary header had). With \<^verbatim>\<open>writefile\<close> unset the save returns this
  result; with \<^verbatim>\<open>writefile\<close> set it hands the result to the library's writer and
  fails exactly when the writer does, with the writer's error.
\<close>

theorem save_marks_absent_kinds:
  assumes "list_all (encodes L self) (extension_list static_only dynamic_only)"
  shows "\<exists>r.
      (\<forall>K. dict_get (primary_header r) K
              = (if K \<in> set (extension_list static_only dynamic_only)
                 then Some (PyStr (if self (lower K) = None
                                   then ''Not included'' else ''Included''))
                 else dict_get (PrimaryHDU_header L) K))
      \<and> records r
          = List.map_filter (encoded L self) (extension_list static_only dynamic_only)
      \<and> written r = (if writefile then Some (filename, overwrite) else None)
      \<and> to_nifits L self filename static_only dynamic_only static_hash writefile overwrite
          = (if writefile
             then (case HDUList_writeto L (primary_header r) (records r) filename overwrite of
                     Inl e \<Rightarrow> Inl e
                   | Inr u \<Rightarrow> Inr r)
             else Inr r)"
proof -
  let ?sel = "extension_list static_only dynamic_only"
  from save_loop_succeeds [OF distinct_lower_extension_list assms, of "PrimaryHDU_header L" "[]"]
  obtain hdr' self' where
    r: "save_loop L ?sel (PrimaryHDU_header L, [], self)
          = Inr (hdr', List.map_filter (encoded L self) ?sel, self')"
    by auto
  let ?r = "\<lparr> primary_header = hdr', records = List.map_filter (encoded L self) ?sel,
              written = (if writefile then Some (filename, overwrite) else None),
              container = self' \<rparr>"
  have f: "\<forall>K. dict_get hdr' K
              = (if K \<in> set ?sel then Some (flag_of self K) else dict_get (PrimaryHDU_header L) K)"
    using save_loop_result [OF r] by blast
  have "to_nifits L self filename static_only dynamic_only static_hash writefile overwrite
          = (if writefile
             then (case HDUList_writeto L (primary_header ?r) (records ?r) filename overwrite of
                     Inl e \<Rightarrow> Inl e
                   | Inr u \<Rightarrow> Inr ?r)
             else Inr ?r)"
    using r by (simp add: to_nifits_def split: sum.splits)
  moreover have "\<forall>K. dict_get (primary_header ?r) K
              = (if K \<in> set ?sel
                 then Some (PyStr (if self (lower K) = None
                                   then ''Not included'' else ''Included''))
                 else dict_get (PrimaryHDU_header L) K)"
    using f by (simp add: flag_of_def)
  moreover have "records ?r = List.map_filter (encoded L self) ?sel"
    by simp
  moreover have "written ?r = (if writefile then Some (filename, overwrite) else None)"
    by simp
  ultimately show ?thesis by blast
qed

theorem save_marks_absent_kinds_witness:
  "(\<exists>r. to_nifits fits_instance three_static_container ''out.nifits'' True False [] False False
           = Inr r
      \<and> dict_get (primary_header r) ''OI_ARRAY'' = Some (PyStr ''Not included'')
      \<and> dict_get (primary_header r) ''OI_WAVELENGTH'' = Some (PyStr ''Included'')
      \<and> dict_get (primary_header r) ''NI_CATM'' = Some (PyStr ''Included'')
      \<and> dict_get (primary_header r) ''NI_FOV'' = Some (PyStr ''Included'')
      \<and> dict_get (primary_header r) ''NI_KMAT'' = None
      \<and> map hdu_name (records r) = [''OI_WAVELENGTH'', ''NI_CATM'', ''NI_FOV'']
      \<and> written r = None)
   \<and> to_nifits fits_instance three_static_container [] True False [] True False = Inl OSError"
proof -
  have h: "list_all (encodes fits_instance three_static_container) (extension_list True False)"
    using to_hdu_static_objs
    by (auto simp: extension_list_static encodes_def lower_names three_static_slots
        split: sum.splits)
  have sel: "extension_list True False = [''OI_ARRAY'', ''OI_WAVELENGTH'', ''NI_CATM'', ''NI_FOV'']"
    by (rule extension_list_static)
  have recs: "map hdu_name (List.map_filter (encoded fits_instance three_static_container)
                 [''OI_ARRAY'', ''OI_WAVELENGTH'', ''NI_CATM'', ''NI_FOV''])
               = [''OI_WAVELENGTH'', ''NI_CATM'', ''NI_FOV'']"
    by (simp add: List.map_filter_simps encoded_def lower_names three_static_slots to_hdu_def
        NI_EXTENSION_to_hdu_def NI_EXTENSION_CPX_ARRAY_to_hdu_def wavelength_obj_def
        catm_obj_def fov_obj_def fits_instance_def)
  from save_marks_absent_kinds [OF h, where writefile = False and filename = "''out.nifits''"
      and overwrite = False and static_hash = "[]"]
  obtain r where
    f: "\<And>K. dict_get (primary_header r) K
              = (if K \<in> set (extension_list True False)
                 then Some (PyStr (if three_static_container (lower K) = None
                                   then ''Not included'' else ''Included''))
                 else dict_get (PrimaryHDU_header fits_instance) K)"
    and rc: "records r = List.map_filter (encoded fits_instance three_static_container)
               (extension_list True False)"
    and w: "written r = None"
    and t: "to_nifits fits_instance three_static_container ''out.nifits'' True False []
              False False = Inr r"
    by auto
  have 1: "dict_get (primary_header r) ''OI_ARRAY'' = Some (PyStr ''Not included'')"
    unfolding f sel by (simp add: lower_names three_static_slots)
  have 2: "dict_get (primary_header r) ''OI_WAVELENGTH'' = Some (PyStr ''Included'')"
    unfolding f sel by (simp add: lower_names three_static_slots)
  have 3: "dict_get (primary_header r) ''NI_CATM'' = Some (PyStr ''Included'')"
    unfolding f sel by (simp add: lower_names three_static_slots)
  have 4: "dict_get (primary_header r) ''NI_FOV'' = Some (PyStr ''Included'')"
    unfolding f sel by (simp add: lower_names three_static_slots)
  have 5: "dict_get (primary_header r) ''NI_KMAT'' = None"
    unfolding f sel by (simp add: fits_instance_def dict_get_def)
  have 6: "map hdu_name (records r) = [''OI_WAVELENGTH'', ''NI_CATM'', ''NI_FOV'']"
    unfolding rc sel by (rule recs)
  from save_marks_absent_kinds [OF h, where writefile = True and filename = "[]"
      and overwrite = False and static_hash = "[]"]
  have 7: "to_nifits fits_instance three_static_container [] True False [] True False
             = Inl OSError"
    by (auto simp: fits_instance_def)
  have "\<exists>r. to_nifits fits_instance three_static_container ''out.nifits'' True False [] False False
           = Inr r
      \<and> dict_get (primary_header r) ''OI_ARRAY'' = Some (PyStr ''Not included'')
      \<and> dict_get (primary_header r) ''OI_WAVELENGTH'' = Some (PyStr ''Included'')
      \<and> dict_get (primary_header r) ''NI_CATM'' = Some (PyStr ''Included'')
      \<and> dict_get (primary_header r) ''NI_FOV'' = Some (PyStr ''Included'')
      \<and> dict_get (primary_header r) ''NI_KMAT'' = None
      \<and> map hdu_name (records r) = [''OI_WAVELENGTH'', ''NI_CATM'', ''NI_FOV'']
      \<and> written r = None"
    using t 1 2 3 4 5 6 w by (intro exI [of _ r]) simp
  with 7 show ?thesis by simp
qed

end
